theory Spec2Isabelle
  imports Complex_Main
begin

section \<open>Numeric types\<close>

text \<open>
  The element types a tensor can have, as the type dispatch of \<^verbatim>\<open>TensorBase\<close> lists them.
\<close>

datatype Type =
  int8 | int16 | int32 | int64 | uint8 | uint16 | uint32 | uint64 | float32 | float64

text \<open>
  A C++ \<^verbatim>\<open>float\<close> or \<^verbatim>\<open>double\<close> value is modelled by the real number it denotes.
  Every arithmetic operation of the source is followed by the rounding of its result type;
  the rounding is a parameter \<open>r\<close> of the model: \<open>r t x\<close> is \<open>x\<close> converted to type \<open>t\<close>.
  Nothing is assumed about it. Infinities and NaN are outside the model.
\<close>

type_synonym rounding = "Type \<Rightarrow> real \<Rightarrow> real"

abbreviation flt :: "rounding \<Rightarrow> real \<Rightarrow> real" where
  "flt r \<equiv> r float32"

abbreviation dbl :: "rounding \<Rightarrow> real \<Rightarrow> real" where
  "dbl r \<equiv> r float64"

text \<open>Arithmetic without rounding error.\<close>

definition exact :: rounding where
  "exact t x = x"

text \<open>\<^verbatim>\<open>static constexpr size_t mbSizeNotProvided = SIZE_MAX\<close>, for a 64-bit \<^verbatim>\<open>size_t\<close>.\<close>

definition mbSizeNotProvided :: nat where
  "mbSizeNotProvided = 2 ^ 64 - 1"

section \<open>Errors\<close>

datatype error =
  Abort string        \<comment> \<open>\<^verbatim>\<open>ABORT\<close> and \<^verbatim>\<open>ABORT_IF\<close>, with the message\<close>
  | NullPointer       \<comment> \<open>a null \<^verbatim>\<open>Tensor\<close> or \<^verbatim>\<open>Ptr\<close> is dereferenced\<close>
  | ShapeMismatch     \<comment> \<open>tensors of different sizes meet in an elementwise operation\<close>
  | OutOfBounds       \<comment> \<open>a read or write past the end of a buffer\<close>

section \<open>Tensors\<close>

text \<open>
  \<^verbatim>\<open>TensorBase\<close>: the element type and the memory, as the list of the element values.
  All tensors of the optimizers have shape \<open>{1, n}\<close>, so \<^verbatim>\<open>size()\<close> is the length of the
  memory. A \<^verbatim>\<open>Tensor\<close> is a pointer to a \<^verbatim>\<open>TensorBase\<close>; a null one is \<open>None\<close>.
  A member \<^verbatim>\<open>x_\<close> of the source is the field \<open>x_m\<close> here (a name cannot end with
  an underscore).
\<close>

record TensorBase =
  type_m :: Type
  memory_m :: "real list"

definition tensor_size :: "TensorBase \<Rightarrow> nat" where
  "tensor_size t = length (memory_m t)"

text \<open>
  Modelled from the spec: \<^verbatim>\<open>Element\<close> of tensors/tensor_operators.h, which is not among
  the sources. It evaluates an expression elementwise and assigns to its first tensor;
  the spec (4.1, 7) makes a shape mismatch between tensors expected to match fatal.
\<close>

definition Element2 ::
  "(real \<Rightarrow> real \<Rightarrow> real) \<Rightarrow> TensorBase \<Rightarrow> TensorBase \<Rightarrow> error + TensorBase" where
  "Element2 f out in2 =
     (if tensor_size in2 = tensor_size out
      then Inr (out\<lparr>memory_m := map2 f (memory_m out) (memory_m in2)\<rparr>)
      else Inl ShapeMismatch)"

definition Element3 ::
  "(real \<Rightarrow> real \<Rightarrow> real \<Rightarrow> real) \<Rightarrow> TensorBase \<Rightarrow> TensorBase \<Rightarrow> TensorBase
     \<Rightarrow> error + TensorBase" where
  "Element3 f out in2 in3 =
     (if tensor_size in2 = tensor_size out \<and> tensor_size in3 = tensor_size out
      then Inr (out\<lparr>memory_m :=
                  map (\<lambda>(a, b, c). f a b c) (zip (memory_m out) (zip (memory_m in2) (memory_m in3)))\<rparr>)
      else Inl ShapeMismatch)"

text \<open>\<^verbatim>\<open>TensorBase::set(T value)\<close>: fill with one value.\<close>

definition set_value :: "real \<Rightarrow> TensorBase \<Rightarrow> TensorBase" where
  "set_value v t = t\<lparr>memory_m := replicate (tensor_size t) v\<rparr>"

text \<open>
  \<^verbatim>\<open>TensorBase::set(const std::vector<T>& v)\<close>: \<^verbatim>\<open>std::copy\<close> of the whole vector to the
  start of the memory; a vector longer than the tensor writes past its end.
\<close>

definition set_vector :: "real list \<Rightarrow> TensorBase \<Rightarrow> error + TensorBase" where
  "set_vector v t =
     (if length v \<le> tensor_size t
      then Inr (t\<lparr>memory_m := v @ drop (length v) (memory_m t)\<rparr>)
      else Inl OutOfBounds)"

text \<open>
  \<^verbatim>\<open>TensorAllocator\<close>, by the calls it has received: the byte counts of its
  \<^verbatim>\<open>reserveExact\<close> calls and the number of tensors it has handed out.
\<close>

record TensorAllocator =
  reserved :: "nat list"
  allocated :: nat

definition New_TensorAllocator :: TensorAllocator where
  "New_TensorAllocator = \<lparr>reserved = [], allocated = 0\<rparr>"

definition reserveExact :: "nat \<Rightarrow> TensorAllocator \<Rightarrow> TensorAllocator" where
  "reserveExact bytes a = a\<lparr>reserved := reserved a @ [bytes]\<rparr>"

section \<open>The optimizers\<close>

datatype ClipperBase = Norm real

text \<open>
  \<^verbatim>\<open>OptimizerBase\<close>. \<open>mvAvg_m\<close> is the member of the base class \<^verbatim>\<open>ExponentialSmoothing\<close>
  that \<^verbatim>\<open>update\<close> reads. The tensors \<open>avg_m\<close>, \<open>pm_m\<close> and \<open>gd_m\<close> are pointers: addresses
  of the tensor store.
\<close>

record OptimizerBase =
  mvAvg_m :: bool
  eta_m :: real
  refMBWordsParam_m :: nat
  costScale_m :: real
  batchesSeen_m :: nat
  clipper_m :: "ClipperBase option"
  optimizerType_m :: Type
  optAlloc_m :: "TensorAllocator option"
  avg_m :: "nat option"
  pm_m :: "nat option"
  gd_m :: "nat option"

text \<open>
  The constructor, from the options it reads: \<^verbatim>\<open>learn-rate\<close>, \<^verbatim>\<open>mini-batch-words-ref\<close>,
  \<^verbatim>\<open>cost-scaling\<close>, \<^verbatim>\<open>clip-norm\<close>, and the smoothing switch of \<^verbatim>\<open>ExponentialSmoothing\<close>.
\<close>

definition New_OptimizerBase :: "bool \<Rightarrow> real \<Rightarrow> nat \<Rightarrow> real \<Rightarrow> real \<Rightarrow> OptimizerBase" where
  "New_OptimizerBase mvAvg learnRate refMBWords costScaling clipNorm =
     \<lparr>mvAvg_m = mvAvg, eta_m = learnRate, refMBWordsParam_m = refMBWords,
      costScale_m = costScaling, batchesSeen_m = 0,
      clipper_m = (if clipNorm > 0 then Some (Norm clipNorm) else None),
      optimizerType_m = float32, optAlloc_m = None, avg_m = None, pm_m = None, gd_m = None\<rparr>"

subsection \<open>Sgd\<close>

text \<open>\<^verbatim>\<open>Sgd\<close> adds no member to \<^verbatim>\<open>OptimizerBase\<close>.\<close>

type_synonym Sgd = OptimizerBase

definition Sgd_setParams :: "real list \<Rightarrow> Sgd \<Rightarrow> Sgd" where
  "Sgd_setParams params s = s"

text \<open>
  \<^verbatim>\<open>Element(_1 -= eta_ * _2, params, grads)\<close>, in \<^verbatim>\<open>float\<close> arithmetic. The result is
  the optimizer and the parameter tensor after the call.
\<close>

definition Sgd_updateImpl ::
  "rounding \<Rightarrow> Sgd \<Rightarrow> TensorBase \<Rightarrow> TensorBase \<Rightarrow> nat \<Rightarrow> nat \<Rightarrow> error + (Sgd \<times> TensorBase)" where
  "Sgd_updateImpl r s params grads actualMBSize refMBWords =
     (case Element2 (\<lambda>p g. flt r (p - flt r (eta_m s * g))) params grads of
        Inl e \<Rightarrow> Inl e
      | Inr params' \<Rightarrow> Inr (s, params'))"

subsection \<open>Adagrad\<close>

record Adagrad = OptimizerBase +
  eps_m :: real
  alloc_m :: "TensorAllocator option"
  gt_m :: "TensorBase option"

definition New_Adagrad :: "rounding \<Rightarrow> OptimizerBase \<Rightarrow> Adagrad" where
  "New_Adagrad r b = OptimizerBase.extend b
     \<lparr>eps_m = flt r (1 / 10 ^ 8), alloc_m = None, gt_m = None\<rparr>"

definition Adagrad_setParams :: "real list \<Rightarrow> Adagrad \<Rightarrow> Adagrad" where
  "Adagrad_setParams params a =
     (if length params > 0 then a\<lparr>eps_m := params ! 0\<rparr> else a)"

text \<open>
  \<^verbatim>\<open>sizeOf\<close> (the bytes of one element of a type) and \<^verbatim>\<open>NumericLimits<float>(type).min\<close>
  are declared in common/types.h, which is not among the sources: both are parameters,
  \<open>sizeOf\<close> and \<open>tmin\<close>.

  \<^verbatim>\<open>Adagrad::updateImpl\<close>. The running sum \<open>gt_m\<close> is allocated and zeroed at the first
  call (\<open>Adagrad_allocate\<close>, lines 100 to 109); \<open>eps_m\<close> is raised to twice the minimum of
  the parameters' type and stays so.
\<close>

definition Adagrad_allocate ::
  "(Type \<Rightarrow> nat) \<Rightarrow> Adagrad \<Rightarrow> TensorBase \<Rightarrow> TensorAllocator \<times> TensorBase" where
  "Adagrad_allocate sizeOf a params =
     (let al = (case alloc_m a of None \<Rightarrow> New_TensorAllocator | Some x \<Rightarrow> x)
      in case gt_m a of
           None \<Rightarrow>
             (let elements = tensor_size params;
                  al = reserveExact (elements * sizeOf (type_m params)) al;
                  al = al\<lparr>allocated := allocated al + 1\<rparr>
              in (al, \<lparr>type_m = type_m params, memory_m = replicate elements 0\<rparr>))
         | Some g \<Rightarrow> (al, g))"

definition Adagrad_updateImpl ::
  "rounding \<Rightarrow> (Type \<Rightarrow> nat) \<Rightarrow> (Type \<Rightarrow> real) \<Rightarrow> Adagrad \<Rightarrow> TensorBase \<Rightarrow> TensorBase
     \<Rightarrow> nat \<Rightarrow> nat \<Rightarrow> error + (Adagrad \<times> TensorBase)" where
  "Adagrad_updateImpl r sizeOf tmin a params grads actualMBSize refMBWords =
     (if actualMBSize \<noteq> refMBWords
      then Inl (Abort ''Adagrad does not support rational hyper-parameter adjustment'')
      else
        let (al, gt) = Adagrad_allocate sizeOf a params
        in case Element2 (\<lambda>s g. flt r (s + flt r (g * g))) gt grads of
             Inl e \<Rightarrow> Inl e
           | Inr gt \<Rightarrow>
               (let eps = max (flt r (tmin (type_m params) * 2)) (eps_m a)
                in (case Element3
                          (\<lambda>p s g. flt r (p - flt r (flt r (eta_m a / flt r (flt r (sqrt s) + eps)) * g)))
                          params gt grads of
                      Inl e \<Rightarrow> Inl e
                    | Inr params \<Rightarrow>
                        Inr (a\<lparr>alloc_m := Some al, gt_m := Some gt, eps_m := eps\<rparr>, params))))"

text \<open>The running sum before a call on parameters of \<open>n\<close> elements: zeros until it exists.\<close>

definition gt_before :: "Adagrad \<Rightarrow> nat \<Rightarrow> real list" where
  "gt_before a n = (case gt_m a of None \<Rightarrow> replicate n 0 | Some t \<Rightarrow> memory_m t)"

subsection \<open>Adam\<close>

text \<open>
  \<^verbatim>\<open>Adam\<close>. Its private \<^verbatim>\<open>pm_\<close> and \<^verbatim>\<open>gd_\<close>, which hide those of the base class and
  are never used, are left out.
\<close>

record Adam = OptimizerBase +
  beta1_m :: real
  beta2_m :: real
  eps_m :: real
  w_m :: real
  t_m :: nat
  denom1_m :: real
  denom2_m :: real
  alloc_m :: "TensorAllocator option"
  mt_m :: "TensorBase option"
  vt_m :: "TensorBase option"

definition New_Adam :: "rounding \<Rightarrow> OptimizerBase \<Rightarrow> Adam" where
  "New_Adam r b = OptimizerBase.extend b
     \<lparr>beta1_m = flt r (9 / 10), beta2_m = flt r (999 / 1000), eps_m = flt r (1 / 10 ^ 8),
      w_m = 0, t_m = 0, denom1_m = 0, denom2_m = 0,
      alloc_m = None, mt_m = None, vt_m = None\<rparr>"

definition Adam_setParams :: "real list \<Rightarrow> Adam \<Rightarrow> Adam" where
  "Adam_setParams params a =
     (let a = (if length params > 0 then a\<lparr>beta1_m := params ! 0\<rparr> else a);
          a = (if length params > 1 then a\<lparr>beta2_m := params ! 1\<rparr> else a);
          a = (if length params > 2 then a\<lparr>eps_m := params ! 2\<rparr> else a);
          a = (if length params > 3 then a\<lparr>w_m := params ! 3\<rparr> else a)
      in a)"

text \<open>
  \<^verbatim>\<open>Adam::updateImpl\<close>. \<open>Adam_allocate\<close> is the lazy allocation of the lines 200 to
  212: both moments are allocated and zeroed when \<open>mt_m\<close> is null. The locals \<open>T\<close>, \<open>Tref\<close>, \<open>eta\<close>, \<open>beta1\<close>, \<open>beta2\<close>, \<open>decay\<close> and
  the denominators are \<^verbatim>\<open>double\<close>; the three \<^verbatim>\<open>Element\<close> expressions run in \<^verbatim>\<open>float\<close>,
  on the \<^verbatim>\<open>float\<close> casts of the locals. A \<^verbatim>\<open>float\<close> member read into a \<^verbatim>\<open>double\<close>
  keeps its value.
\<close>

definition Adam_allocate ::
  "(Type \<Rightarrow> nat) \<Rightarrow> Adam \<Rightarrow> TensorBase
     \<Rightarrow> TensorAllocator \<times> TensorBase option \<times> TensorBase option" where
  "Adam_allocate sizeOf a params =
     (let al = (case alloc_m a of None \<Rightarrow> New_TensorAllocator | Some x \<Rightarrow> x)
      in case mt_m a of
           None \<Rightarrow>
             (let elements = tensor_size params;
                  al = reserveExact (2 * elements * sizeOf (type_m params)) al;
                  al = al\<lparr>allocated := allocated al + 2\<rparr>;
                  z = \<lparr>type_m = type_m params, memory_m = replicate elements 0\<rparr>
              in (al, Some z, Some z))
         | Some m \<Rightarrow> (al, Some m, vt_m a))"

definition Adam_updateImpl ::
  "rounding \<Rightarrow> (Type \<Rightarrow> nat) \<Rightarrow> Adam \<Rightarrow> TensorBase \<Rightarrow> TensorBase \<Rightarrow> nat \<Rightarrow> nat
     \<Rightarrow> error + (Adam \<times> TensorBase)" where
  "Adam_updateImpl r sizeOf a params grads actualMBSize refMBWords =
     (let (al, mt, vt) = Adam_allocate sizeOf a params;
          T = dbl r (real actualMBSize);
          Tref = dbl r (real refMBWords);
          eta = dbl r (eta_m a * dbl r (T / Tref));
          beta1 = beta1_m a;
          beta2 = beta2_m a;
          decay = w_m a;
          denom1 = dbl r (dbl r (beta1 * denom1_m a) + dbl r (1 - beta1));
          denom2 = dbl r (dbl r (beta2 * denom2_m a) + dbl r (1 - beta2));
          a = a\<lparr>alloc_m := Some al, mt_m := mt, vt_m := vt, denom1_m := denom1, denom2_m := denom2\<rparr>
      in case (mt, vt) of
           (Some mt, Some vt) \<Rightarrow>
             (let c1 = flt r (dbl r (dbl r (1 - beta1) / T));
                  c2 = flt r (dbl r (dbl r (dbl r (1 - beta2) / T) / T))
              in (case Element2 (\<lambda>m g. flt r (flt r (flt r beta1 * m) + flt r (c1 * g))) mt grads of
                    Inl e \<Rightarrow> Inl e
                  | Inr mt \<Rightarrow>
                     (case Element2
                             (\<lambda>v g. flt r (flt r (flt r beta2 * v) + flt r (c2 * flt r (g * g))))
                             vt grads of
                        Inl e \<Rightarrow> Inl e
                      | Inr vt \<Rightarrow>
                         (let etaf = flt r eta; denom1f = flt r denom1;
                              denom2f = flt r denom2; decayf = flt r decay
                          in (case Element3
                                    (\<lambda>p m v. flt r (p - flt r (etaf *
                                       flt r (flt r (flt r (m / denom1f) /
                                                     flt r (flt r (sqrt (flt r (v / denom2f))) + eps_m a))
                                              + flt r (decayf * p)))))
                                    params mt vt of
                                Inl e \<Rightarrow> Inl e
                              | Inr params \<Rightarrow>
                                  Inr (a\<lparr>mt_m := Some mt, vt_m := Some vt\<rparr>, params))))))
         | _ \<Rightarrow> Inl NullPointer)"

text \<open>
  The moments before a call on parameters of \<open>n\<close> elements (zeros until they exist), and
  whether existing moments have \<open>n\<close> elements.
\<close>

definition mt_before :: "Adam \<Rightarrow> nat \<Rightarrow> real list" where
  "mt_before a n = (case mt_m a of None \<Rightarrow> replicate n 0 | Some t \<Rightarrow> memory_m t)"

definition vt_before :: "Adam \<Rightarrow> nat \<Rightarrow> real list" where
  "vt_before a n =
     (case mt_m a of
        None \<Rightarrow> replicate n 0
      | Some t \<Rightarrow> (case vt_m a of None \<Rightarrow> [] | Some v \<Rightarrow> memory_m v))"

definition moments_fit :: "Adam \<Rightarrow> nat \<Rightarrow> bool" where
  "moments_fit a n =
     (case mt_m a of
        None \<Rightarrow> True
      | Some m \<Rightarrow> tensor_size m = n \<and> (case vt_m a of None \<Rightarrow> False | Some v \<Rightarrow> tensor_size v = n))"

text \<open>
  Successive calls of \<^verbatim>\<open>Adam::updateImpl\<close> on one optimizer and one parameter tensor, each
  with its gradients and minibatch sizes: the optimizer and the parameters after each call.
\<close>

fun Adam_updates ::
  "rounding \<Rightarrow> (Type \<Rightarrow> nat) \<Rightarrow> Adam \<Rightarrow> TensorBase \<Rightarrow> (TensorBase \<times> nat \<times> nat) list
     \<Rightarrow> error + (Adam \<times> TensorBase) list" where
  "Adam_updates r sizeOf a params [] = Inr []"
| "Adam_updates r sizeOf a params ((grads, actualMBSize, refMBWords) # calls) =
     (case Adam_updateImpl r sizeOf a params grads actualMBSize refMBWords of
        Inl e \<Rightarrow> Inl e
      | Inr (a', params') \<Rightarrow>
         (case Adam_updates r sizeOf a' params' calls of
            Inl e \<Rightarrow> Inl e
          | Inr rest \<Rightarrow> Inr ((a', params') # rest)))"

section \<open>The update call\<close>

text \<open>
  The tensors that \<^verbatim>\<open>update\<close> works on are shared: without a cast \<open>pm_m\<close> and \<open>gd_m\<close>
  are the caller's own tensors. So tensors live in a store, \<open>heap\<close>, and a \<^verbatim>\<open>Tensor\<close> is
  an address of it; \<open>fresh\<close> is the next unused address. The contents of newly allocated
  memory are indeterminate: \<open>uninit\<close> gives them, and nothing is assumed about it.
  \<open>trace\<close> records the calls that \<^verbatim>\<open>update\<close> makes on its collaborators, in order.
\<close>

datatype event =
    EvReserveExact nat                  \<comment> \<open>\<^verbatim>\<open>optAlloc_->reserveExact(bytes)\<close>\<close>
  | EvAllocate nat                      \<comment> \<open>\<^verbatim>\<open>optAlloc_->allocate\<close>, with the new tensor\<close>
  | EvCopyCast nat nat                  \<comment> \<open>\<^verbatim>\<open>CopyCast(out, in)\<close>\<close>
  | EvUnscale nat                       \<comment> \<open>\<^verbatim>\<open>Element(_1 = _1 / costScale_, gd_)\<close>\<close>
  | EvClip nat                          \<comment> \<open>\<^verbatim>\<open>clipper_->clip(grads)\<close>\<close>
  | EvUpdateImpl nat nat nat nat        \<comment> \<open>\<^verbatim>\<open>updateImpl(pm_, gd_, mbSize, refMBWords)\<close>\<close>
  | EvUpdateAvgParams nat nat nat nat   \<comment> \<open>\<^verbatim>\<open>updateAvgParams(avg_, pm_, batchesSeen_, mbSize)\<close>\<close>
  | EvSynchronize                       \<comment> \<open>\<^verbatim>\<open>params->getBackend()->synchronize()\<close>\<close>

record world =
  heap :: "nat \<Rightarrow> TensorBase option"
  fresh :: nat
  uninit :: "nat \<Rightarrow> real"
  trace :: "event list"

type_synonym 'a opt_state = "'a OptimizerBase_scheme \<times> world"

definition emit :: "event \<Rightarrow> world \<Rightarrow> world" where
  "emit e w = w\<lparr>trace := trace w @ [e]\<rparr>"

text \<open>\<^verbatim>\<open>allocator->allocate(tensor, {1, elements}, type)\<close>: a new tensor of the store.\<close>

definition allocate ::
  "nat \<Rightarrow> Type \<Rightarrow> TensorAllocator \<Rightarrow> world \<Rightarrow> nat \<times> TensorAllocator \<times> world" where
  "allocate elements ty al w =
     (fresh w, al\<lparr>allocated := allocated al + 1\<rparr>,
      emit (EvAllocate (fresh w))
        (w\<lparr>heap := (heap w)(fresh w \<mapsto> \<lparr>type_m = ty, memory_m = map (uninit w) [0..<elements]\<rparr>),
           fresh := Suc (fresh w)\<rparr>))"

text \<open>
  Modelled from the spec: \<^verbatim>\<open>CopyCast\<close> of tensors/tensor_operators.h, which is not among
  the sources. It convert-copies the elements of \<open>src\<close> into \<open>out\<close>, in the type of \<open>out\<close>
  (spec 4.1); tensors of different sizes are a fatal shape mismatch (spec 7).
\<close>

definition CopyCast :: "rounding \<Rightarrow> nat option \<Rightarrow> nat option \<Rightarrow> world \<Rightarrow> error option \<times> world" where
  "CopyCast r out src w =
     (case (out, src) of
        (Some out, Some src) \<Rightarrow>
          (case (heap w out, heap w src) of
             (Some to, Some ti) \<Rightarrow>
               if tensor_size ti = tensor_size to
               then (None, emit (EvCopyCast out src)
                       (w\<lparr>heap := (heap w)(out \<mapsto> to\<lparr>memory_m := map (r (type_m to)) (memory_m ti)\<rparr>)\<rparr>))
               else (Some ShapeMismatch, w)
           | _ \<Rightarrow> (Some NullPointer, w))
      | _ \<Rightarrow> (Some NullPointer, w))"

text \<open>Lines 25 to 35 of \<^verbatim>\<open>update\<close>: the arena and the average, when smoothing is on.\<close>

definition update_allocAvg :: "(Type \<Rightarrow> nat) \<Rightarrow> bool \<Rightarrow> nat \<Rightarrow> 'a opt_state \<Rightarrow> 'a opt_state" where
  "update_allocAvg sizeOf castOptimizerType elements = (\<lambda>(opt, w).
     if mvAvg_m opt \<and> optAlloc_m opt = None
     then
       let al = New_TensorAllocator;
           numAllocateShards = (if castOptimizerType then 3 else 1) :: nat;
           bytes = numAllocateShards * elements * sizeOf (optimizerType_m opt);
           al = reserveExact bytes al;
           w = emit (EvReserveExact bytes) w;
           (avg, al, w) = allocate elements (optimizerType_m opt) al w
       in (opt\<lparr>optAlloc_m := Some al, avg_m := Some avg\<rparr>, w)
     else (opt, w))"

text \<open>
  Lines 37 to 59: with a cast, the arena if it does not exist yet, the master copy and the
  gradient shard if \<open>pm_m\<close> is null, and the gradients cast into the shard; without one,
  \<open>pm_m\<close> and \<open>gd_m\<close> become the caller's tensors.
\<close>

definition update_cast ::
  "rounding \<Rightarrow> (Type \<Rightarrow> nat) \<Rightarrow> bool \<Rightarrow> nat \<Rightarrow> nat \<Rightarrow> nat \<Rightarrow> 'a opt_state
     \<Rightarrow> error option \<times> 'a opt_state" where
  "update_cast r sizeOf castOptimizerType elements params grads = (\<lambda>(opt, w).
     if castOptimizerType
     then
       let (al, w) =
             (case optAlloc_m opt of
                None \<Rightarrow>
                  (let bytes = 2 * elements * sizeOf (optimizerType_m opt)
                   in (reserveExact bytes New_TensorAllocator, emit (EvReserveExact bytes) w))
              | Some al \<Rightarrow> (al, w));
           opt = opt\<lparr>optAlloc_m := Some al\<rparr>;
           (e, opt, w) =
             (if pm_m opt = None
              then
                let (pm, al, w) = allocate elements (optimizerType_m opt) al w;
                    (gd, al, w) = allocate elements (optimizerType_m opt) al w;
                    opt = opt\<lparr>optAlloc_m := Some al, pm_m := Some pm, gd_m := Some gd\<rparr>;
                    (e, w) = CopyCast r (pm_m opt) (Some params) w
                in (e, opt, w)
              else (None, opt, w))
       in (case e of
             Some x \<Rightarrow> (Some x, (opt, w))
           | None \<Rightarrow> (let (e, w) = CopyCast r (gd_m opt) (Some grads) w in (e, (opt, w))))
     else (None, (opt\<lparr>pm_m := Some params, gd_m := Some grads\<rparr>, w)))"

text \<open>Lines 64 to 66: the cost scaling is taken out of \<open>gd_m\<close>, in the type of that tensor.\<close>

definition update_unscale :: "rounding \<Rightarrow> 'a opt_state \<Rightarrow> error option \<times> 'a opt_state" where
  "update_unscale r = (\<lambda>(opt, w).
     if costScale_m opt \<noteq> 1
     then
       (case gd_m opt of
          None \<Rightarrow> (Some NullPointer, (opt, w))
        | Some gd \<Rightarrow>
           (case heap w gd of
              None \<Rightarrow> (Some NullPointer, (opt, w))
            | Some g \<Rightarrow>
                (None, (opt, emit (EvUnscale gd)
                   (w\<lparr>heap := (heap w)(gd \<mapsto>
                        g\<lparr>memory_m := map (\<lambda>x. r (type_m g) (x / costScale_m opt)) (memory_m g)\<rparr>)\<rparr>)))))
     else (None, (opt, w)))"

text \<open>
  Lines 70 and 71: the clipper works on \<open>grads\<close>, the tensor of the caller. What it does to
  a tensor is in optimizers/clippers.h, which is not among the sources: \<open>clip\<close> is a
  parameter.
\<close>

definition update_clip ::
  "(ClipperBase \<Rightarrow> TensorBase \<Rightarrow> TensorBase) \<Rightarrow> nat \<Rightarrow> 'a opt_state \<Rightarrow> error option \<times> 'a opt_state" where
  "update_clip clip grads = (\<lambda>(opt, w).
     case clipper_m opt of
       None \<Rightarrow> (None, (opt, w))
     | Some c \<Rightarrow>
        (case heap w grads of
           None \<Rightarrow> (Some NullPointer, (opt, w))
         | Some g \<Rightarrow> (None, (opt, emit (EvClip grads) (w\<lparr>heap := (heap w)(grads \<mapsto> clip c g)\<rparr>)))))"

text \<open>
  Line 76: the virtual \<^verbatim>\<open>updateImpl\<close>, on the tensors that \<open>pm_m\<close> and \<open>gd_m\<close> point to.
  The rule \<open>impl\<close> gives the optimizer and the parameter tensor after the call.
\<close>

definition update_rule ::
  "('a OptimizerBase_scheme \<Rightarrow> TensorBase \<Rightarrow> TensorBase \<Rightarrow> nat \<Rightarrow> nat
      \<Rightarrow> error + ('a OptimizerBase_scheme \<times> TensorBase))
     \<Rightarrow> nat \<Rightarrow> nat \<Rightarrow> 'a opt_state \<Rightarrow> error option \<times> 'a opt_state" where
  "update_rule impl mbSize refMBWords = (\<lambda>(opt, w).
     case (pm_m opt, gd_m opt) of
       (Some pm, Some gd) \<Rightarrow>
         (case (heap w pm, heap w gd) of
            (Some p, Some g) \<Rightarrow>
              (let w = emit (EvUpdateImpl pm gd mbSize refMBWords) w
               in (case impl opt p g mbSize refMBWords of
                     Inl e \<Rightarrow> (Some e, (opt, w))
                   | Inr (opt, p) \<Rightarrow> (None, (opt, w\<lparr>heap := (heap w)(pm \<mapsto> p)\<rparr>))))
          | _ \<Rightarrow> (Some NullPointer, (opt, w)))
     | _ \<Rightarrow> (Some NullPointer, (opt, w)))"

text \<open>
  Lines 79 and 80: \<^verbatim>\<open>updateAvgParams\<close> is a method of \<^verbatim>\<open>ExponentialSmoothing\<close>, which is
  not among the sources: \<open>avgFn\<close>, the new contents of the average, is a parameter.
\<close>

definition update_avg ::
  "(TensorBase \<Rightarrow> TensorBase \<Rightarrow> nat \<Rightarrow> nat \<Rightarrow> TensorBase) \<Rightarrow> nat \<Rightarrow> 'a opt_state
     \<Rightarrow> error option \<times> 'a opt_state" where
  "update_avg avgFn mbSize = (\<lambda>(opt, w).
     if mvAvg_m opt
     then
       (case (avg_m opt, pm_m opt) of
          (Some avg, Some pm) \<Rightarrow>
            (case (heap w avg, heap w pm) of
               (Some a, Some p) \<Rightarrow>
                 (None, (opt, emit (EvUpdateAvgParams avg pm (batchesSeen_m opt) mbSize)
                    (w\<lparr>heap := (heap w)(avg \<mapsto> avgFn a p (batchesSeen_m opt) mbSize)\<rparr>)))
             | _ \<Rightarrow> (Some NullPointer, (opt, w)))
        | _ \<Rightarrow> (Some NullPointer, (opt, w)))
     else (None, (opt, w)))"

text \<open>Lines 83 to 85: the master copy is cast back into the caller's parameters.\<close>

definition update_castBack ::
  "rounding \<Rightarrow> bool \<Rightarrow> nat \<Rightarrow> 'a opt_state \<Rightarrow> error option \<times> 'a opt_state" where
  "update_castBack r castOptimizerType params = (\<lambda>(opt, w).
     if castOptimizerType
     then (let (e, w) = CopyCast r (Some params) (pm_m opt) w in (e, (opt, w)))
     else (None, (opt, w)))"

definition update_synchronize :: "'a opt_state \<Rightarrow> error option \<times> 'a opt_state" where
  "update_synchronize = (\<lambda>(opt, w). (None, (opt, emit EvSynchronize w)))"

text \<open>One statement after the other: a failure stops the call, in the state it is in.\<close>

definition andThen ::
  "('s \<Rightarrow> error option \<times> 's) \<Rightarrow> ('s \<Rightarrow> error option \<times> 's) \<Rightarrow> 's \<Rightarrow> error option \<times> 's" where
  "andThen f g s = (case f s of (Some e, s') \<Rightarrow> (Some e, s') | (None, s') \<Rightarrow> g s')"

text \<open>
  \<^verbatim>\<open>OptimizerBase::update(Tensor params, Tensor grads, size_t mbSize)\<close>. The result is the
  error, if the call fails, and the optimizer and the store at its end.
\<close>

definition update ::
  "rounding \<Rightarrow> (Type \<Rightarrow> nat) \<Rightarrow> (ClipperBase \<Rightarrow> TensorBase \<Rightarrow> TensorBase)
     \<Rightarrow> (TensorBase \<Rightarrow> TensorBase \<Rightarrow> nat \<Rightarrow> nat \<Rightarrow> TensorBase)
     \<Rightarrow> ('a OptimizerBase_scheme \<Rightarrow> TensorBase \<Rightarrow> TensorBase \<Rightarrow> nat \<Rightarrow> nat
          \<Rightarrow> error + ('a OptimizerBase_scheme \<times> TensorBase))
     \<Rightarrow> nat \<Rightarrow> nat \<Rightarrow> nat \<Rightarrow> 'a opt_state \<Rightarrow> error option \<times> 'a opt_state" where
  "update r sizeOf clip avgFn impl params grads mbSize = (\<lambda>(opt, w).
     let refMBWords = refMBWordsParam_m opt
     in if refMBWords \<noteq> 0 \<and> mbSize = mbSizeNotProvided
        then (Some (Abort ''Using rational optimizer auto-adjustment with trainer that does not provide MB size''),
              (opt, w))
        else
          let (refMBWords, mbSize) = (if refMBWords = 0 then (1, 1) else (refMBWords, mbSize))
          in case heap w params of
               None \<Rightarrow> (Some NullPointer, (opt, w))
             | Some p \<Rightarrow>
                (let castOptimizerType = (type_m p \<noteq> optimizerType_m opt);
                     elements = tensor_size p
                 in andThen (update_cast r sizeOf castOptimizerType elements params grads)
                   (andThen (update_unscale r)
                   (andThen (update_clip clip grads)
                   (andThen (update_rule impl mbSize refMBWords)
                   (andThen (update_avg avgFn mbSize)
                   (andThen (update_castBack r castOptimizerType params)
                    update_synchronize)))))
                   (update_allocAvg sizeOf castOptimizerType elements (opt, w))))"

text \<open>Calls of \<^verbatim>\<open>update\<close> one after the other, as the training loop makes them.\<close>

fun updates ::
  "rounding \<Rightarrow> (Type \<Rightarrow> nat) \<Rightarrow> (ClipperBase \<Rightarrow> TensorBase \<Rightarrow> TensorBase)
     \<Rightarrow> (TensorBase \<Rightarrow> TensorBase \<Rightarrow> nat \<Rightarrow> nat \<Rightarrow> TensorBase)
     \<Rightarrow> ('a OptimizerBase_scheme \<Rightarrow> TensorBase \<Rightarrow> TensorBase \<Rightarrow> nat \<Rightarrow> nat
          \<Rightarrow> error + ('a OptimizerBase_scheme \<times> TensorBase))
     \<Rightarrow> (nat \<times> nat \<times> nat) list \<Rightarrow> 'a opt_state \<Rightarrow> error option \<times> 'a opt_state" where
  "updates r sizeOf clip avgFn impl [] s = (None, s)"
| "updates r sizeOf clip avgFn impl ((params, grads, mbSize) # calls) s =
     (case update r sizeOf clip avgFn impl params grads mbSize s of
        (Some e, s') \<Rightarrow> (Some e, s')
      | (None, s') \<Rightarrow> updates r sizeOf clip avgFn impl calls s')"

text \<open>
  The reservations of the arena and the allocations from it that a trace records, and the
  number of the reservations.
\<close>

fun is_reserve :: "event \<Rightarrow> bool" where
  "is_reserve (EvReserveExact bytes) = True"
| "is_reserve e = False"

fun is_allocation :: "event \<Rightarrow> bool" where
  "is_allocation (EvReserveExact bytes) = True"
| "is_allocation (EvAllocate t) = True"
| "is_allocation e = False"

definition reservations :: "world \<Rightarrow> nat" where
  "reservations w = length (filter is_reserve (trace w))"

text \<open>
  The arena has been reserved at most once: no reservation while \<open>optAlloc_m\<close> is null,
  and one, recorded in the allocator, from then on.
\<close>

definition arena_once :: "'a opt_state \<Rightarrow> bool" where
  "arena_once = (\<lambda>(opt, w).
     case optAlloc_m opt of
       None \<Rightarrow> reservations w = 0
     | Some al \<Rightarrow> reservations w = 1 \<and> length (reserved al) = 1)"

text \<open>
  An update rule that leaves the members of \<^verbatim>\<open>OptimizerBase\<close> alone, as the three rules
  do.
\<close>

definition keeps_base ::
  "('a OptimizerBase_scheme \<Rightarrow> TensorBase \<Rightarrow> TensorBase \<Rightarrow> nat \<Rightarrow> nat
      \<Rightarrow> error + ('a OptimizerBase_scheme \<times> TensorBase)) \<Rightarrow> bool" where
  "keeps_base impl =
     (\<forall>opt p g actualMBSize refMBWords opt' p'.
        impl opt p g actualMBSize refMBWords = Inr (opt', p')
          \<longrightarrow> OptimizerBase.truncate opt' = OptimizerBase.truncate opt)"

text \<open>
  The state of a call that comes after the arena and the master copy exist: the allocator
  is \<open>al\<close>, \<open>pm_m\<close> is not null, and the reservations and allocations made so far are \<open>evs\<close>.
\<close>

definition quiet :: "TensorAllocator \<Rightarrow> event list \<Rightarrow> 'a opt_state \<Rightarrow> bool" where
  "quiet al evs = (\<lambda>(opt, w).
     optAlloc_m opt = Some al \<and> pm_m opt \<noteq> None \<and> filter is_allocation (trace w) = evs)"

text \<open>The errors of the statements of \<^verbatim>\<open>update\<close> other than its abort.\<close>

definition own_error :: "error \<Rightarrow> bool" where
  "own_error x = (x = NullPointer \<or> x = ShapeMismatch)"





section \<open>Checkpoints\<close>

text \<open>
  \<^verbatim>\<open>io::Item\<close>, by the members that \<^verbatim>\<open>load\<close> and \<^verbatim>\<open>save\<close> use. \<open>bytes\<close> is the data of the
  item as the list of its elements: the layout in memory is not modelled, and \<^verbatim>\<open>load\<close>
  does not look at \<open>type\<close>.
\<close>

record Item =
  name :: string
  shape :: "nat list"
  type :: Type
  bytes :: "real list"

text \<open>\<^verbatim>\<open>Shape::elements()\<close>.\<close>

definition elements :: "nat list \<Rightarrow> nat" where
  "elements sh = prod_list sh"

text \<open>
  \<^verbatim>\<open>load\<close> and \<^verbatim>\<open>save\<close> work on the optimizers of all shards, through pointers, and on
  \<^verbatim>\<open>this\<close>, which may be one of them: the optimizers live in a store \<open>objs\<close>. \<open>files\<close> is
  the file system, a file being the list of its items, and \<open>events\<close> records, in order, the
  messages logged and the calls of the scatter and gather callbacks and of
  \<^verbatim>\<open>io::saveItems\<close>.
\<close>

datatype optimizer = SgdOpt Sgd | AdagradOpt Adagrad | AdamOpt Adam

datatype io_event =
    LogInfo string
  | LogWarn string
  | Scatter "real list"
  | Gather
  | SaveItems string "Item list"

record disk =
  objs :: "nat \<Rightarrow> optimizer option"
  files :: "string \<Rightarrow> Item list option"
  events :: "io_event list"

definition logged :: "io_event \<Rightarrow> disk \<Rightarrow> disk" where
  "logged e d = d\<lparr>events := events d @ [e]\<rparr>"

text \<open>
  The \<^verbatim>\<open>std::copy\<close> of the first \<open>totalSize\<close> elements of the data of an item into a
  vector resized to \<open>totalSize\<close>; data with fewer elements are read past their end.
\<close>

definition item_data :: "Item \<Rightarrow> error + real list" where
  "item_data item =
     (let totalSize = elements (shape item)
      in if totalSize \<le> length (bytes item) then Inr (take totalSize (bytes item))
         else Inl OutOfBounds)"

text \<open>
  The callbacks are parameters. A scatter function, given the vector, calls the setter it
  is given any number of times, each time with the index of a local device and a slice:
  \<open>scatterFn\<close> maps the vector to the list of these calls. A gather function, given the
  getter, calls it as it likes and returns a vector.
\<close>

type_synonym ScatterStateFunc = "real list \<Rightarrow> (nat \<times> real list) list"
type_synonym GatherStateFunc = "(nat \<Rightarrow> error + real list) \<Rightarrow> error + real list"

text \<open>\<^verbatim>\<open>opts[localDeviceIndex]\<close>, an index past the end being a read out of bounds.\<close>

definition opt_at ::
  "nat list \<Rightarrow> nat \<Rightarrow> (nat \<Rightarrow> optimizer option) \<Rightarrow> error + nat \<times> optimizer" where
  "opt_at opts i os =
     (if i < length opts
      then (case os (opts ! i) of None \<Rightarrow> Inl NullPointer | Some opt \<Rightarrow> Inr (opts ! i, opt))
      else Inl OutOfBounds)"

text \<open>The calls of a setter that a scatter function makes, one after the other.\<close>

fun scatter_calls ::
  "(nat \<Rightarrow> real list \<Rightarrow> disk \<Rightarrow> error option \<times> disk) \<Rightarrow> (nat \<times> real list) list \<Rightarrow> disk
     \<Rightarrow> error option \<times> disk" where
  "scatter_calls setFn [] d = (None, d)"
| "scatter_calls setFn ((i, slice) # calls) d =
     (case setFn i slice d of
        (Some e, d') \<Rightarrow> (Some e, d')
      | (None, d') \<Rightarrow> scatter_calls setFn calls d')"

definition scatter ::
  "ScatterStateFunc \<Rightarrow> real list \<Rightarrow> (nat \<Rightarrow> real list \<Rightarrow> disk \<Rightarrow> error option \<times> disk) \<Rightarrow> disk
     \<Rightarrow> error option \<times> disk" where
  "scatter scatterFn v setFn d = scatter_calls setFn (scatterFn v) (logged (Scatter v) d)"

subsection \<open>Adagrad\<close>

text \<open>The loop over the items of \<^verbatim>\<open>Adagrad::load\<close>: what \<open>vGt\<close> is at its end.\<close>

fun Adagrad_load_items :: "Item list \<Rightarrow> real list \<Rightarrow> error + real list" where
  "Adagrad_load_items [] vGt = Inr vGt"
| "Adagrad_load_items (item # items) vGt =
     (if name item = ''adagrad_gt''
      then (case item_data item of
              Inl e \<Rightarrow> Inl e
            | Inr v \<Rightarrow> Adagrad_load_items items v)
      else Adagrad_load_items items vGt)"

text \<open>
  The setter that \<^verbatim>\<open>Adagrad::load\<close> gives to the scatter function. A pointer that
  \<^verbatim>\<open>dynamic_pointer_cast<Adagrad>\<close> turns into null is dereferenced. A newly allocated
  \<open>gt_m\<close> has the default type, \<^verbatim>\<open>float32\<close>, and \<^verbatim>\<open>sizeof(float)\<close> is 4.
\<close>

definition Adagrad_load_set :: "nat list \<Rightarrow> nat \<Rightarrow> real list \<Rightarrow> disk \<Rightarrow> error option \<times> disk" where
  "Adagrad_load_set opts localDeviceIndex slice d =
     (case opt_at opts localDeviceIndex (objs d) of
        Inl e \<Rightarrow> (Some e, d)
      | Inr (p, AdagradOpt opt) \<Rightarrow>
         (let opt =
                (case gt_m opt of
                   None \<Rightarrow>
                     (let al = (case Adagrad.alloc_m opt of None \<Rightarrow> New_TensorAllocator | Some x \<Rightarrow> x);
                          size = length slice;
                          al = reserveExact (4 * size) al;
                          al = al\<lparr>allocated := allocated al + 1\<rparr>
                      in opt\<lparr>Adagrad.alloc_m := Some al,
                             gt_m := Some \<lparr>type_m = float32, memory_m = replicate size 0\<rparr>\<rparr>)
                 | Some g \<Rightarrow> opt)
          in (case gt_m opt of
                None \<Rightarrow> (Some NullPointer, d)
              | Some g \<Rightarrow>
                 (case set_vector slice g of
                    Inl e \<Rightarrow> (Some e, d)
                  | Inr g \<Rightarrow> (None, d\<lparr>objs := (objs d)(p \<mapsto> AdagradOpt (opt\<lparr>gt_m := Some g\<rparr>))\<rparr>))))
      | Inr _ \<Rightarrow> (Some NullPointer, d))"

text \<open>\<^verbatim>\<open>Adagrad::load\<close>.\<close>

definition Adagrad_load ::
  "string \<Rightarrow> nat list \<Rightarrow> nat list \<Rightarrow> ScatterStateFunc \<Rightarrow> disk \<Rightarrow> error option \<times> disk" where
  "Adagrad_load fname opts backends scatterFn d =
     (if length opts \<noteq> length backends
      then (Some (Abort ''opts and backends of different sizes??''), d)
      else
        case files d fname of
          None \<Rightarrow> (None, d)
        | Some items \<Rightarrow>
           (let d = logged (LogInfo (''Loading Adagrad parameters from '' @ fname)) d
            in (case Adagrad_load_items items [] of
                  Inl e \<Rightarrow> (Some e, d)
                | Inr vGt \<Rightarrow>
                    if vGt = []
                    then (None, logged (LogWarn ''[warn] Adagrad parameters not found in .npz file'') d)
                    else scatter scatterFn vGt (Adagrad_load_set opts) d)))"

text \<open>
  The getter that \<^verbatim>\<open>Adagrad::save\<close> gives to the gather function, and \<^verbatim>\<open>Adagrad::save\<close>.
\<close>

definition Adagrad_save_get ::
  "nat list \<Rightarrow> (nat \<Rightarrow> optimizer option) \<Rightarrow> nat \<Rightarrow> error + real list" where
  "Adagrad_save_get opts os localDeviceIndex =
     (case opt_at opts localDeviceIndex os of
        Inl e \<Rightarrow> Inl e
      | Inr (p, AdagradOpt opt) \<Rightarrow>
         (case gt_m opt of None \<Rightarrow> Inl NullPointer | Some g \<Rightarrow> Inr (memory_m g))
      | Inr _ \<Rightarrow> Inl NullPointer)"

definition Adagrad_save ::
  "string \<Rightarrow> nat list \<Rightarrow> GatherStateFunc \<Rightarrow> bool \<Rightarrow> disk \<Rightarrow> error option \<times> disk" where
  "Adagrad_save fname opts gatherFn isMainProcess d =
     (let d = logged (LogInfo (''Saving Adagrad parameters to '' @ fname)) d;
          d = logged Gather d
      in case gatherFn (Adagrad_save_get opts (objs d)) of
           Inl e \<Rightarrow> (Some e, d)
         | Inr vGt \<Rightarrow>
             if \<not> isMainProcess then (None, d)
             else
               let item = \<lparr>name = ''adagrad_gt'', shape = [1, length vGt], type = float32, bytes = vGt\<rparr>
               in (None, logged (SaveItems fname [item]) (d\<lparr>files := (files d)(fname \<mapsto> [item])\<rparr>)))"

subsection \<open>Adam\<close>

text \<open>
  The loop over the items of \<^verbatim>\<open>Adam::load\<close>: what \<open>vMt\<close>, \<open>vVt\<close> and \<open>vDenoms\<close> are at
  its end.
\<close>

fun Adam_load_items ::
  "Item list \<Rightarrow> real list \<times> real list \<times> real list \<Rightarrow> error + real list \<times> real list \<times> real list" where
  "Adam_load_items [] acc = Inr acc"
| "Adam_load_items (item # items) (vMt, vVt, vDenoms) =
     (let totalSize = elements (shape item)
      in if name item = ''adam_mt''
         then (case item_data item of
                 Inl e \<Rightarrow> Inl e
               | Inr v \<Rightarrow> Adam_load_items items (v, vVt, vDenoms))
         else if name item = ''adam_vt''
         then (case item_data item of
                 Inl e \<Rightarrow> Inl e
               | Inr v \<Rightarrow> Adam_load_items items (vMt, v, vDenoms))
         else if name item = ''adam_denoms''
         then (if totalSize \<noteq> 2 then Inl (Abort ''adam_denoms should have 2 entries'')
               else (case item_data item of
                       Inl e \<Rightarrow> Inl e
                     | Inr v \<Rightarrow> Adam_load_items items (vMt, vVt, v)))
         else Adam_load_items items (vMt, vVt, vDenoms))"

text \<open>
  The two setters of \<^verbatim>\<open>Adam::load\<close>. The first allocates both moments when one of them
  is null; the contents of newly allocated memory are indeterminate (\<open>junk\<close>).
\<close>

definition Adam_load_setMt ::
  "(nat \<Rightarrow> real) \<Rightarrow> nat list \<Rightarrow> nat \<Rightarrow> real list \<Rightarrow> disk \<Rightarrow> error option \<times> disk" where
  "Adam_load_setMt junk opts localDeviceIndex slice d =
     (case opt_at opts localDeviceIndex (objs d) of
        Inl e \<Rightarrow> (Some e, d)
      | Inr (p, AdamOpt opt) \<Rightarrow>
         (let opt =
                (if mt_m opt = None \<or> vt_m opt = None
                 then
                   let al = (case alloc_m opt of None \<Rightarrow> New_TensorAllocator | Some x \<Rightarrow> x);
                       size = length slice;
                       al = reserveExact (2 * 4 * size) al;
                       al = al\<lparr>allocated := allocated al + 2\<rparr>;
                       fresh = \<lparr>type_m = float32, memory_m = map junk [0..<size]\<rparr>
                   in opt\<lparr>alloc_m := Some al, mt_m := Some fresh, vt_m := Some fresh\<rparr>
                 else opt)
          in (case mt_m opt of
                None \<Rightarrow> (Some NullPointer, d)
              | Some m \<Rightarrow>
                 (case set_vector slice m of
                    Inl e \<Rightarrow> (Some e, d)
                  | Inr m \<Rightarrow> (None, d\<lparr>objs := (objs d)(p \<mapsto> AdamOpt (opt\<lparr>mt_m := Some m\<rparr>))\<rparr>))))
      | Inr _ \<Rightarrow> (Some NullPointer, d))"

definition Adam_load_setVt :: "nat list \<Rightarrow> nat \<Rightarrow> real list \<Rightarrow> disk \<Rightarrow> error option \<times> disk" where
  "Adam_load_setVt opts localDeviceIndex slice d =
     (case opt_at opts localDeviceIndex (objs d) of
        Inl e \<Rightarrow> (Some e, d)
      | Inr (p, AdamOpt opt) \<Rightarrow>
         (case vt_m opt of
            None \<Rightarrow> (Some NullPointer, d)
          | Some v \<Rightarrow>
             (case set_vector slice v of
                Inl e \<Rightarrow> (Some e, d)
              | Inr v \<Rightarrow> (None, d\<lparr>objs := (objs d)(p \<mapsto> AdamOpt (opt\<lparr>vt_m := Some v\<rparr>))\<rparr>)))
      | Inr _ \<Rightarrow> (Some NullPointer, d))"

text \<open>
  \<^verbatim>\<open>Adam::load\<close>, called on the optimizer at the address \<open>this\<close>. The local
  \<^verbatim>\<open>std::array<double, 2> vDenoms\<close> is declared without an initializer: its two elements
  start with indeterminate values, \<open>vDenoms0\<close>, about which nothing is assumed.
\<close>

definition Adam_load ::
  "(nat \<Rightarrow> real) \<Rightarrow> real \<times> real \<Rightarrow> nat \<Rightarrow> string \<Rightarrow> nat list \<Rightarrow> nat list \<Rightarrow> ScatterStateFunc \<Rightarrow> disk
     \<Rightarrow> error option \<times> disk" where
  "Adam_load junk vDenoms0 this fname opts backends scatterFn d =
     (if length opts \<noteq> length backends
      then (Some (Abort ''opts and backends of different sizes??''), d)
      else
        case files d fname of
          None \<Rightarrow> (None, d)
        | Some items \<Rightarrow>
           (let d = logged (LogInfo (''Loading Adam parameters from '' @ fname)) d
            in (case Adam_load_items items ([], [], [fst vDenoms0, snd vDenoms0]) of
                  Inl e \<Rightarrow> (Some e, d)
                | Inr (vMt, vVt, vDenoms) \<Rightarrow>
                    if vMt = [] \<or> vVt = []
                    then (None, logged (LogWarn ''[warn] Adam parameters not found in .npz file'') d)
                    else if length vMt \<noteq> length vVt
                    then (Some (Abort ''mt and vt have different sizes??''), d)
                    else
                      (case scatter scatterFn vMt (Adam_load_setMt junk opts) d of
                         (Some e, d) \<Rightarrow> (Some e, d)
                       | (None, d) \<Rightarrow>
                          (case scatter scatterFn vVt (Adam_load_setVt opts) d of
                             (Some e, d) \<Rightarrow> (Some e, d)
                           | (None, d) \<Rightarrow>
                              (case objs d this of
                                 Some (AdamOpt a) \<Rightarrow>
                                   (None, d\<lparr>objs := (objs d)(this \<mapsto>
                                      AdamOpt (a\<lparr>denom1_m := vDenoms ! 0, denom2_m := vDenoms ! 1\<rparr>))\<rparr>)
                               | _ \<Rightarrow> (Some NullPointer, d)))))))"

text \<open>The two getters of \<^verbatim>\<open>Adam::save\<close>, and \<^verbatim>\<open>Adam::save\<close>.\<close>

definition Adam_save_getMt ::
  "nat list \<Rightarrow> (nat \<Rightarrow> optimizer option) \<Rightarrow> nat \<Rightarrow> error + real list" where
  "Adam_save_getMt opts os localDeviceIndex =
     (case opt_at opts localDeviceIndex os of
        Inl e \<Rightarrow> Inl e
      | Inr (p, AdamOpt opt) \<Rightarrow>
         (case mt_m opt of None \<Rightarrow> Inl NullPointer | Some m \<Rightarrow> Inr (memory_m m))
      | Inr _ \<Rightarrow> Inl NullPointer)"

definition Adam_save_getVt ::
  "nat list \<Rightarrow> (nat \<Rightarrow> optimizer option) \<Rightarrow> nat \<Rightarrow> error + real list" where
  "Adam_save_getVt opts os localDeviceIndex =
     (case opt_at opts localDeviceIndex os of
        Inl e \<Rightarrow> Inl e
      | Inr (p, AdamOpt opt) \<Rightarrow>
         (case vt_m opt of None \<Rightarrow> Inl NullPointer | Some v \<Rightarrow> Inr (memory_m v))
      | Inr _ \<Rightarrow> Inl NullPointer)"

definition Adam_save ::
  "nat \<Rightarrow> string \<Rightarrow> nat list \<Rightarrow> GatherStateFunc \<Rightarrow> bool \<Rightarrow> disk \<Rightarrow> error option \<times> disk" where
  "Adam_save this fname opts gatherFn isMainProcess d =
     (let d = (if isMainProcess then logged (LogInfo (''Saving Adam parameters to '' @ fname)) d else d);
          d = logged Gather d
      in case gatherFn (Adam_save_getMt opts (objs d)) of
           Inl e \<Rightarrow> (Some e, d)
         | Inr vMt \<Rightarrow>
            (let d = logged Gather d
             in (case gatherFn (Adam_save_getVt opts (objs d)) of
                   Inl e \<Rightarrow> (Some e, d)
                 | Inr vVt \<Rightarrow>
                     if \<not> isMainProcess then (None, d)
                     else
                       (case objs d this of
                          Some (AdamOpt a) \<Rightarrow>
                            (let itemMt = \<lparr>name = ''adam_mt'', shape = [1, length vMt],
                                           type = float32, bytes = vMt\<rparr>;
                                 itemVt = \<lparr>name = ''adam_vt'', shape = [1, length vVt],
                                           type = float32, bytes = vVt\<rparr>;
                                 vDenoms = [denom1_m a, denom2_m a];
                                 itemDenoms = \<lparr>name = ''adam_denoms'', shape = [1, length vDenoms],
                                               type = float64, bytes = vDenoms\<rparr>
                             in (None, logged (SaveItems fname [itemMt, itemVt, itemDenoms])
                                   (d\<lparr>files := (files d)(fname \<mapsto> [itemMt, itemVt, itemDenoms])\<rparr>)))
                        | _ \<Rightarrow> (Some NullPointer, d)))))"

section \<open>Example inputs\<close>

definition tensor32 :: "real list \<Rightarrow> TensorBase" where
  "tensor32 xs = \<lparr>type_m = float32, memory_m = xs\<rparr>"

text \<open>
  An Adagrad optimizer with learning rate \<open>0.1\<close> and an Adam optimizer with learning rate
  \<open>0.01\<close>, both new, with the default hyperparameters, in exact arithmetic.
\<close>

definition ex_Adagrad :: Adagrad where
  "ex_Adagrad = New_Adagrad exact (New_OptimizerBase False (1 / 10) 0 1 0)"

definition ex_Adam :: Adam where
  "ex_Adam = New_Adam exact (New_OptimizerBase False (1 / 100) 0 1 0)"

text \<open>The smallest positive normal \<^verbatim>\<open>float\<close>, for every type.\<close>

definition ex_tmin :: "Type \<Rightarrow> real" where
  "ex_tmin t = 1 / 2 ^ 126"


text \<open>
  A store with two \<^verbatim>\<open>float32\<close> tensors at the addresses 0 and 1 and two \<^verbatim>\<open>float64\<close>
  tensors at 2 and 3, and collaborators to run the calls with: elements of four bytes, a
  clipper that halves every element, and an average that takes over the parameters.
\<close>

definition ex_world :: world where
  "ex_world =
     \<lparr>heap = ((\<lambda>_. None)
        (0 \<mapsto> \<lparr>type_m = float32, memory_m = [1]\<rparr>,
         1 \<mapsto> \<lparr>type_m = float32, memory_m = [2]\<rparr>,
         2 \<mapsto> \<lparr>type_m = float64, memory_m = [5]\<rparr>,
         3 \<mapsto> \<lparr>type_m = float64, memory_m = [8]\<rparr>)),
      fresh = 4, uninit = (\<lambda>_. 0), trace = []\<rparr>"

definition ex_sizeOf :: "Type \<Rightarrow> nat" where
  "ex_sizeOf t = 4"

definition ex_clip :: "ClipperBase \<Rightarrow> TensorBase \<Rightarrow> TensorBase" where
  "ex_clip c t = t\<lparr>memory_m := map (\<lambda>x. x / 2) (memory_m t)\<rparr>"

definition ex_avgFn :: "TensorBase \<Rightarrow> TensorBase \<Rightarrow> nat \<Rightarrow> nat \<Rightarrow> TensorBase" where
  "ex_avgFn a p batches mb = a\<lparr>memory_m := memory_m p\<rparr>"

text \<open>A scatter function for one device, which gets the whole vector, and its gather function.\<close>

definition ex_scatterFn :: ScatterStateFunc where
  "ex_scatterFn v = [(0, v)]"

definition ex_gatherFn :: GatherStateFunc where
  "ex_gatherFn getFn = getFn 0"

text \<open>
  Optimizers after some training, and a store with a trained Adam at the address 0, a
  trained Adagrad at 1 and a new Adam at 2. The files: a checkpoint of Adam from before
  the denominators were saved, one with the first moment only, and one whose moments have
  different lengths.
\<close>

definition ex_Adam_trained :: Adam where
  "ex_Adam_trained =
     ex_Adam\<lparr>denom1_m := 1 / 10, denom2_m := 1 / 1000,
             mt_m := Some (tensor32 [1 / 10]), vt_m := Some (tensor32 [1 / 1000])\<rparr>"

definition ex_Adagrad_trained :: Adagrad where
  "ex_Adagrad_trained = ex_Adagrad\<lparr>gt_m := Some (tensor32 [4])\<rparr>"

definition ex_disk :: disk where
  "ex_disk =
     \<lparr>objs = ((\<lambda>_. None)
        (0 \<mapsto> AdamOpt ex_Adam_trained, 1 \<mapsto> AdagradOpt ex_Adagrad_trained, 2 \<mapsto> AdamOpt ex_Adam)),
      files = ((\<lambda>_. None)
        (''legacy.npz'' \<mapsto>
           [\<lparr>name = ''adam_mt'', shape = [1, 1], type = float32, bytes = [7]\<rparr>,
            \<lparr>name = ''adam_vt'', shape = [1, 1], type = float32, bytes = [9]\<rparr>],
         ''mt_only.npz'' \<mapsto>
           [\<lparr>name = ''adam_mt'', shape = [1, 1], type = float32, bytes = [7]\<rparr>],
         ''mismatch.npz'' \<mapsto>
           [\<lparr>name = ''adam_mt'', shape = [1, 2], type = float32, bytes = [7, 8]\<rparr>,
            \<lparr>name = ''adam_vt'', shape = [1, 1], type = float32, bytes = [9]\<rparr>])),
      events = []\<rparr>"

text \<open>
  An Sgd optimizer with smoothing, and its state after a first call on the \<^verbatim>\<open>float32\<close>
  tensors 0 and 1 of the example store.
\<close>

definition ex_opt_avg :: Sgd where
  "ex_opt_avg = New_OptimizerBase True (1 / 2) 0 1 0"

definition ex_state1 :: "unit opt_state" where
  "ex_state1 =
     (ex_opt_avg\<lparr>optAlloc_m := Some \<lparr>reserved = [4], allocated = 1\<rparr>,
                 avg_m := Some 4, pm_m := Some 0, gd_m := Some 1\<rparr>,
      \<lparr>heap = ((\<lambda>_. None)
         (0 \<mapsto> \<lparr>type_m = float32, memory_m = [0]\<rparr>,
          1 \<mapsto> \<lparr>type_m = float32, memory_m = [2]\<rparr>,
          2 \<mapsto> \<lparr>type_m = float64, memory_m = [5]\<rparr>,
          3 \<mapsto> \<lparr>type_m = float64, memory_m = [8]\<rparr>,
          4 \<mapsto> \<lparr>type_m = float32, memory_m = [0]\<rparr>)),
       fresh = 5, uninit = (\<lambda>_. 0),
       trace = [EvReserveExact 4, EvAllocate 4, EvUpdateImpl 0 1 1 1, EvUpdateAvgParams 4 0 0 1,
                EvSynchronize]\<rparr>)"


section \<open>Verified properties\<close>

lemma Element2_nth:
  assumes "Element2 f out in2 = Inr t" and "i < tensor_size out"
  shows "memory_m t ! i = f (memory_m out ! i) (memory_m in2 ! i)"
  using assms by (auto simp: Element2_def tensor_size_def split: if_splits)

lemma Element2_size:
  assumes "Element2 f out in2 = Inr t"
  shows "tensor_size t = tensor_size out \<and> type_m t = type_m out"
  using assms by (auto simp: Element2_def tensor_size_def split: if_splits)

lemma Element3_nth:
  assumes "Element3 f out in2 in3 = Inr t" and "i < tensor_size out"
  shows "memory_m t ! i = f (memory_m out ! i) (memory_m in2 ! i) (memory_m in3 ! i)"
  using assms by (auto simp: Element3_def tensor_size_def split: if_splits)

lemma Element3_size:
  assumes "Element3 f out in2 in3 = Inr t"
  shows "tensor_size t = tensor_size out \<and> type_m t = type_m out"
  using assms by (auto simp: Element3_def tensor_size_def split: if_splits)

lemma Element2_ok:
  "tensor_size in2 = tensor_size out \<Longrightarrow> \<exists>t. Element2 f out in2 = Inr t"
  by (simp add: Element2_def)

lemma Element3_ok:
  "tensor_size in2 = tensor_size out \<Longrightarrow> tensor_size in3 = tensor_size out \<Longrightarrow> \<exists>t. Element3 f out in2 in3 = Inr t"
  by (simp add: Element3_def)

text \<open>
  C9. The Sgd rule, on tensors of equal size, returns the parameter tensor with each element
  \<open>p\<close> replaced by \<open>p - eta * g\<close> (in \<^verbatim>\<open>float\<close> arithmetic; exactly that real number when
  the arithmetic is exact), returns the optimizer as it was, so it keeps no state of its
  own, and does not depend on the two minibatch sizes. Being a function of the parameters,
  the gradients and the learning rate only, two calls on the same three give the same
  result.
\<close>

theorem Sgd_updateImpl_rule:
  assumes "tensor_size grads = tensor_size params"
  shows "Sgd_updateImpl r s params grads actualMBSize refMBWords =
           Inr (s, params\<lparr>memory_m :=
                  map2 (\<lambda>p g. flt r (p - flt r (eta_m s * g))) (memory_m params) (memory_m grads)\<rparr>)
       \<and> (\<forall>params'. Sgd_updateImpl exact s params grads actualMBSize refMBWords = Inr (s, params')
            \<longrightarrow> (\<forall>i < tensor_size params.
                   memory_m params' ! i = memory_m params ! i - eta_m s * memory_m grads ! i))
       \<and> Sgd_updateImpl r s params grads mb1 ref1 = Sgd_updateImpl r s params grads mb2 ref2
       \<and> (eta_m s' = eta_m s \<longrightarrow>
            map_sum id snd (Sgd_updateImpl r s' params grads mb1 ref1)
              = map_sum id snd (Sgd_updateImpl r s params grads mb2 ref2))"
  using assms
  by (auto simp: Sgd_updateImpl_def Element2_def tensor_size_def exact_def)

theorem Sgd_updateImpl_rule_witness:
  "Sgd_updateImpl exact (New_OptimizerBase False (1 / 2) 0 1 0)
      \<lparr>type_m = float32, memory_m = [1, 2]\<rparr> \<lparr>type_m = float32, memory_m = [4, 6]\<rparr> 5 7
    = Inr (New_OptimizerBase False (1 / 2) 0 1 0, \<lparr>type_m = float32, memory_m = [-1, -1]\<rparr>)"
  using Sgd_updateImpl_rule [of "\<lparr>type_m = float32, memory_m = [4, 6]\<rparr>"
      "\<lparr>type_m = float32, memory_m = [1, 2]\<rparr>" exact "New_OptimizerBase False (1 / 2) 0 1 0" 5 7]
  by (simp add: tensor_size_def exact_def New_OptimizerBase_def)





text \<open>
  C10. \<^verbatim>\<open>setParams\<close> is positional. Sgd ignores the vector. Adagrad takes its first entry
  for \<open>eps\<close> and leaves the optimizer as it is when the vector is empty: a new Adagrad keeps
  the \<^verbatim>\<open>float\<close> \<open>1e-8\<close>. Adam takes the entries 0 to 3 that the vector has for \<open>beta1\<close>,
  \<open>beta2\<close>, \<open>eps\<close> and the weight decay and keeps the other ones: a new Adam keeps the
  \<^verbatim>\<open>float\<close>s \<open>0.9\<close>, \<open>0.999\<close>, \<open>1e-8\<close> and 0. Entries after the fourth change nothing.
\<close>

theorem setParams_positional:
  "Sgd_setParams ps s = s
   \<and> Adagrad_setParams ps g = (if ps = [] then g else g\<lparr>Adagrad.eps_m := ps ! 0\<rparr>)
   \<and> Adagrad.eps_m (Adagrad_setParams [] (New_Adagrad r b)) = flt r (1 / 10 ^ 8)
   \<and> Adagrad.eps_m (Adagrad_setParams [] (New_Adagrad exact b)) = 1 / 10 ^ 8
   \<and> Adam_setParams ps a =
        a\<lparr>beta1_m := (if 0 < length ps then ps ! 0 else beta1_m a),
          beta2_m := (if 1 < length ps then ps ! 1 else beta2_m a),
          eps_m := (if 2 < length ps then ps ! 2 else eps_m a),
          w_m := (if 3 < length ps then ps ! 3 else w_m a)\<rparr>
   \<and> beta1_m (Adam_setParams ps (New_Adam r b)) = (if 0 < length ps then ps ! 0 else flt r (9 / 10))
   \<and> beta2_m (Adam_setParams ps (New_Adam r b)) = (if 1 < length ps then ps ! 1 else flt r (999 / 1000))
   \<and> eps_m (Adam_setParams ps (New_Adam r b)) = (if 2 < length ps then ps ! 2 else flt r (1 / 10 ^ 8))
   \<and> w_m (Adam_setParams ps (New_Adam r b)) = (if 3 < length ps then ps ! 3 else 0)
   \<and> Adam_setParams [] (New_Adam exact b) = New_Adam exact b
   \<and> beta1_m (New_Adam exact b) = 9 / 10 \<and> beta2_m (New_Adam exact b) = 999 / 1000
   \<and> eps_m (New_Adam exact b) = 1 / 10 ^ 8 \<and> w_m (New_Adam exact b) = 0
   \<and> Adam_setParams (p1 # p2 # p3 # p4 # rest) a = Adam_setParams [p1, p2, p3, p4] a"
  by (simp add: Sgd_setParams_def Adagrad_setParams_def Adam_setParams_def New_Adagrad_def New_Adam_def
      OptimizerBase.extend_def Let_def exact_def)

subsection \<open>Adagrad\<close>

lemma Adagrad_updateImpl_steps:
  assumes mb: "actualMBSize = refMBWords"
    and g: "tensor_size grads = tensor_size params"
    and s: "length (gt_before a (tensor_size params)) = tensor_size params"
  shows "case Adagrad_updateImpl r sizeOf tmin a params grads actualMBSize refMBWords of
           Inl e \<Rightarrow> False
         | Inr (a', params') \<Rightarrow>
             Adagrad.eps_m a' = max (flt r (tmin (type_m params) * 2)) (Adagrad.eps_m a)
           \<and> OptimizerBase.truncate a' = OptimizerBase.truncate a
           \<and> type_m params' = type_m params \<and> tensor_size params' = tensor_size params
           \<and> (case gt_m a' of
                 None \<Rightarrow> False
               | Some gt' \<Rightarrow>
                   tensor_size gt' = tensor_size params
                 \<and> (\<forall>i < tensor_size params.
                      memory_m gt' ! i =
                        flt r (gt_before a (tensor_size params) ! i
                               + flt r (memory_m grads ! i * memory_m grads ! i))
                    \<and> memory_m params' ! i =
                        flt r (memory_m params ! i
                               - flt r (flt r (eta_m a / flt r (flt r (sqrt (memory_m gt' ! i)) + Adagrad.eps_m a'))
                                        * memory_m grads ! i))))"
proof -
  define gt0 where "gt0 = snd (Adagrad_allocate sizeOf a params)"
  have gt0_size: "tensor_size gt0 = tensor_size params" and gt0_mem: "memory_m gt0 = gt_before a (tensor_size params)"
    using s by (auto simp: gt0_def Adagrad_allocate_def gt_before_def tensor_size_def Let_def split: option.splits)
  obtain gt1 where gt1: "Element2 (\<lambda>s g. flt r (s + flt r (g * g))) gt0 grads = Inr gt1"
    using Element2_ok [of grads gt0] g gt0_size by auto
  have gt1_size: "tensor_size gt1 = tensor_size params"
    using Element2_size [OF gt1] gt0_size by simp
  define eps where "eps = max (flt r (tmin (type_m params) * 2)) (Adagrad.eps_m a)"
  obtain p1 where p1: "Element3 (\<lambda>p s g. flt r (p - flt r (flt r (eta_m a / flt r (flt r (sqrt s) + eps)) * g))) params gt1 grads = Inr p1"
    using Element3_ok [of gt1 params grads] g gt1_size by auto
  have res: "Adagrad_updateImpl r sizeOf tmin a params grads actualMBSize refMBWords
     = Inr (a\<lparr>Adagrad.alloc_m := Some (fst (Adagrad_allocate sizeOf a params)), gt_m := Some gt1, Adagrad.eps_m := eps\<rparr>, p1)"
    using mb gt1 p1 by (simp add: Adagrad_updateImpl_def gt0_def eps_def Let_def split_beta)
  note res' = res
  show ?thesis
    using Element2_nth [OF gt1] Element3_nth [OF p1] Element3_size [OF p1] gt1_size gt0_size gt0_mem
    by (simp add: res' eps_def OptimizerBase.truncate_def)
qed


text \<open>
  C4 (as amended). A call of the Adagrad rule with an actual minibatch size other than the
  reference size aborts. Otherwise, on tensors of equal size and in exact arithmetic, the
  running sum becomes \<open>gt + grads\<^sup>2\<close> elementwise, \<open>eps\<close> becomes the maximum of twice the
  minimum of the parameters' type and the configured \<open>eps\<close>, and each parameter becomes
  \<open>p - (eta / (sqrt gt + eps)) * g\<close>, with a positive divisor when the running sum was not
  negative and \<open>eps\<close> is positive. With \<open>eta = 0.1\<close>, \<open>eps = 1e-8\<close>, gradients \<open>[2]\<close> and
  parameters \<open>[1]\<close>, where twice the type's minimum is at most \<open>1e-8\<close>, the running sum is
  \<open>[4]\<close> and the parameter is \<open>180000001 / 200000001\<close>, within \<open>1e-8\<close> of \<open>0.9\<close>.
\<close>

theorem Adagrad_updateImpl_rule:
  "(actualMBSize \<noteq> refMBWords \<longrightarrow>
      Adagrad_updateImpl r sizeOf tmin a params grads actualMBSize refMBWords
        = Inl (Abort ''Adagrad does not support rational hyper-parameter adjustment''))
   \<and> (actualMBSize = refMBWords \<and> tensor_size grads = tensor_size params
        \<and> length (gt_before a (tensor_size params)) = tensor_size params \<longrightarrow>
        (case Adagrad_updateImpl exact sizeOf tmin a params grads actualMBSize refMBWords of
           Inl e \<Rightarrow> False
         | Inr (a', params') \<Rightarrow>
             Adagrad.eps_m a' = max (tmin (type_m params) * 2) (Adagrad.eps_m a)
           \<and> tensor_size params' = tensor_size params
           \<and> (case gt_m a' of
                 None \<Rightarrow> False
               | Some gt' \<Rightarrow>
                   tensor_size gt' = tensor_size params
                 \<and> (\<forall>i < tensor_size params.
                      memory_m gt' ! i = gt_before a (tensor_size params) ! i + (memory_m grads ! i)\<^sup>2
                    \<and> memory_m params' ! i =
                        memory_m params ! i
                          - (eta_m a / (sqrt (memory_m gt' ! i) + Adagrad.eps_m a')) * memory_m grads ! i
                    \<and> (0 \<le> gt_before a (tensor_size params) ! i \<and> 0 < Adagrad.eps_m a
                          \<longrightarrow> 0 < sqrt (memory_m gt' ! i) + Adagrad.eps_m a')))))
   \<and> (tmin float32 * 2 \<le> 1 / 10 ^ 8 \<longrightarrow>
        (case Adagrad_updateImpl exact sizeOf tmin
                 (New_Adagrad exact (New_OptimizerBase mvAvg (1 / 10) refMBWords costScaling clipNorm))
                 \<lparr>type_m = float32, memory_m = [1]\<rparr> \<lparr>type_m = float32, memory_m = [2]\<rparr> 1 1 of
           Inl e \<Rightarrow> False
         | Inr (a', params') \<Rightarrow>
             map_option memory_m (gt_m a') = Some [4]
           \<and> memory_m params' = [180000001 / 200000001]
           \<and> \<bar>memory_m params' ! 0 - 9 / 10\<bar> < 1 / 10 ^ 8))"
proof (intro conjI impI)
  assume "actualMBSize \<noteq> refMBWords"
  then show "Adagrad_updateImpl r sizeOf tmin a params grads actualMBSize refMBWords
        = Inl (Abort ''Adagrad does not support rational hyper-parameter adjustment'')"
    by (simp add: Adagrad_updateImpl_def)
next
  assume h: "actualMBSize = refMBWords \<and> tensor_size grads = tensor_size params
        \<and> length (gt_before a (tensor_size params)) = tensor_size params"
  then have "case Adagrad_updateImpl exact sizeOf tmin a params grads actualMBSize refMBWords of
           Inl e \<Rightarrow> False
         | Inr (a', params') \<Rightarrow>
             Adagrad.eps_m a' = max (flt exact (tmin (type_m params) * 2)) (Adagrad.eps_m a)
           \<and> OptimizerBase.truncate a' = OptimizerBase.truncate a
           \<and> type_m params' = type_m params \<and> tensor_size params' = tensor_size params
           \<and> (case gt_m a' of
                 None \<Rightarrow> False
               | Some gt' \<Rightarrow>
                   tensor_size gt' = tensor_size params
                 \<and> (\<forall>i < tensor_size params.
                      memory_m gt' ! i =
                        flt exact (gt_before a (tensor_size params) ! i
                               + flt exact (memory_m grads ! i * memory_m grads ! i))
                    \<and> memory_m params' ! i =
                        flt exact (memory_m params ! i
                               - flt exact (flt exact (eta_m a / flt exact (flt exact (sqrt (memory_m gt' ! i)) + Adagrad.eps_m a'))
                                        * memory_m grads ! i))))"
    using Adagrad_updateImpl_steps [where r = exact and sizeOf = sizeOf and tmin = tmin and a = a
        and params = params and grads = grads and actualMBSize = actualMBSize and refMBWords = refMBWords]
    by blast
  then show "case Adagrad_updateImpl exact sizeOf tmin a params grads actualMBSize refMBWords of
           Inl e \<Rightarrow> False
         | Inr (a', params') \<Rightarrow>
             Adagrad.eps_m a' = max (tmin (type_m params) * 2) (Adagrad.eps_m a)
           \<and> tensor_size params' = tensor_size params
           \<and> (case gt_m a' of
                 None \<Rightarrow> False
               | Some gt' \<Rightarrow>
                   tensor_size gt' = tensor_size params
                 \<and> (\<forall>i < tensor_size params.
                      memory_m gt' ! i = gt_before a (tensor_size params) ! i + (memory_m grads ! i)\<^sup>2
                    \<and> memory_m params' ! i =
                        memory_m params ! i
                          - (eta_m a / (sqrt (memory_m gt' ! i) + Adagrad.eps_m a')) * memory_m grads ! i
                    \<and> (0 \<le> gt_before a (tensor_size params) ! i \<and> 0 < Adagrad.eps_m a
                          \<longrightarrow> 0 < sqrt (memory_m gt' ! i) + Adagrad.eps_m a')))"
    by (auto simp: exact_def power2_eq_square split: sum.splits option.splits
          intro!: add_nonneg_pos real_sqrt_ge_zero)
next
  assume "tmin float32 * 2 \<le> 1 / 10 ^ 8"
  then have "max (tmin float32 * 2) (1 / 10 ^ 8) = 1 / 10 ^ 8" by simp
  then show "case Adagrad_updateImpl exact sizeOf tmin
                 (New_Adagrad exact (New_OptimizerBase mvAvg (1 / 10) refMBWords costScaling clipNorm))
                 \<lparr>type_m = float32, memory_m = [1]\<rparr> \<lparr>type_m = float32, memory_m = [2]\<rparr> 1 1 of
           Inl e \<Rightarrow> False
         | Inr (a', params') \<Rightarrow>
             map_option memory_m (gt_m a') = Some [4]
           \<and> memory_m params' = [180000001 / 200000001]
           \<and> \<bar>memory_m params' ! 0 - 9 / 10\<bar> < 1 / 10 ^ 8"
    by (simp add: Adagrad_updateImpl_def Adagrad_allocate_def New_Adagrad_def New_OptimizerBase_def
        OptimizerBase.extend_def Element2_def Element3_def tensor_size_def exact_def Let_def)
qed


theorem Adagrad_updateImpl_rule_witness:
  "(1 :: nat) \<noteq> 2
   \<and> Adagrad_updateImpl exact ex_sizeOf ex_tmin ex_Adagrad (tensor32 [1]) (tensor32 [2]) 1 2
       = Inl (Abort ''Adagrad does not support rational hyper-parameter adjustment'')
   \<and> tensor_size (tensor32 [2]) = tensor_size (tensor32 [1])
   \<and> length (gt_before ex_Adagrad (tensor_size (tensor32 [1]))) = tensor_size (tensor32 [1])
   \<and> ex_tmin float32 * 2 \<le> 1 / 10 ^ 8
   \<and> (case Adagrad_updateImpl exact ex_sizeOf ex_tmin ex_Adagrad (tensor32 [1]) (tensor32 [2]) 1 1 of
         Inl e \<Rightarrow> False
       | Inr (a', params') \<Rightarrow>
           map_option memory_m (gt_m a') = Some [4] \<and> Adagrad.eps_m a' = 1 / 10 ^ 8
         \<and> memory_m params' = [180000001 / 200000001])"
  using Adagrad_updateImpl_rule [where r = exact and sizeOf = ex_sizeOf and tmin = ex_tmin
      and a = ex_Adagrad and params = "tensor32 [1]" and grads = "tensor32 [2]"
      and actualMBSize = 1 and refMBWords = 2]
    Adagrad_updateImpl_rule [where r = exact and sizeOf = ex_sizeOf and tmin = ex_tmin
      and a = ex_Adagrad and params = "tensor32 [1]" and grads = "tensor32 [2]"
      and actualMBSize = 1 and refMBWords = 1 and mvAvg = False and costScaling = 1
      and clipNorm = 0]
  by (simp add: ex_Adagrad_def tensor32_def ex_tmin_def gt_before_def Adagrad_updateImpl_def
      Adagrad_allocate_def New_Adagrad_def New_OptimizerBase_def OptimizerBase.extend_def
      Element2_def Element3_def tensor_size_def exact_def Let_def)

text \<open>
  C4 as it is written fails at its own example: the parameter after the call is
  \<open>180000001 / 200000001\<close>, about \<open>0.9\<close>, and not within \<open>0.04\<close> of \<open>0.95\<close>.
\<close>

theorem Adagrad_scenario_counterexample:
  "Adagrad_updateImpl exact ex_sizeOf ex_tmin ex_Adagrad (tensor32 [1]) (tensor32 [2]) 1 1
     = Inr (ex_Adagrad\<lparr>Adagrad.alloc_m := Some \<lparr>reserved = [4], allocated = 1\<rparr>,
                       gt_m := Some (tensor32 [4]), Adagrad.eps_m := 1 / 10 ^ 8\<rparr>,
            tensor32 [180000001 / 200000001])
   \<and> \<not> \<bar>180000001 / 200000001 - 95 / 100\<bar> < (4 / 100 :: real)"
  by (simp add: ex_Adagrad_def tensor32_def ex_tmin_def ex_sizeOf_def Adagrad_updateImpl_def
      Adagrad_allocate_def New_Adagrad_def New_OptimizerBase_def OptimizerBase.extend_def
      Element2_def Element3_def tensor_size_def exact_def Let_def New_TensorAllocator_def
      reserveExact_def)

subsection \<open>Adam\<close>

lemma Adam_updateImpl_steps:
  assumes g: "tensor_size grads = tensor_size params"
    and s: "moments_fit a (tensor_size params)"
  shows "case Adam_updateImpl r sizeOf a params grads actualMBSize refMBWords of
           Inl e \<Rightarrow> False
         | Inr (a', params') \<Rightarrow>
             denom1_m a' = dbl r (dbl r (beta1_m a * denom1_m a) + dbl r (1 - beta1_m a))
           \<and> denom2_m a' = dbl r (dbl r (beta2_m a * denom2_m a) + dbl r (1 - beta2_m a))
           \<and> beta1_m a' = beta1_m a \<and> beta2_m a' = beta2_m a \<and> eps_m a' = eps_m a \<and> w_m a' = w_m a
           \<and> OptimizerBase.truncate a' = OptimizerBase.truncate a
           \<and> type_m params' = type_m params \<and> tensor_size params' = tensor_size params
           \<and> (case (mt_m a', vt_m a') of
                 (Some mt', Some vt') \<Rightarrow>
                   tensor_size mt' = tensor_size params \<and> tensor_size vt' = tensor_size params
                 \<and> (\<forall>i < tensor_size params.
                      memory_m mt' ! i =
                        flt r (flt r (flt r (beta1_m a) * mt_before a (tensor_size params) ! i)
                               + flt r (flt r (dbl r (dbl r (1 - beta1_m a) / dbl r (real actualMBSize)))
                                        * memory_m grads ! i))
                    \<and> memory_m vt' ! i =
                        flt r (flt r (flt r (beta2_m a) * vt_before a (tensor_size params) ! i)
                               + flt r (flt r (dbl r (dbl r (dbl r (1 - beta2_m a) / dbl r (real actualMBSize))
                                                       / dbl r (real actualMBSize)))
                                        * flt r (memory_m grads ! i * memory_m grads ! i)))
                    \<and> memory_m params' ! i =
                        flt r (memory_m params ! i
                          - flt r (flt r (dbl r (eta_m a * dbl r (dbl r (real actualMBSize) / dbl r (real refMBWords))))
                             * flt r (flt r (flt r (memory_m mt' ! i / flt r (denom1_m a'))
                                             / flt r (flt r (sqrt (flt r (memory_m vt' ! i / flt r (denom2_m a'))))
                                                      + eps_m a))
                                      + flt r (flt r (w_m a) * memory_m params ! i)))))
               | _ \<Rightarrow> False)"
proof -
  define al where "al = fst (Adam_allocate sizeOf a params)"
  define mt0 where "mt0 = \<lparr>type_m = type_m params, memory_m = mt_before a (tensor_size params)\<rparr>"
  have "\<exists>mt0 vt0. Adam_allocate sizeOf a params = (al, Some mt0, Some vt0)
        \<and> tensor_size mt0 = tensor_size params \<and> memory_m mt0 = mt_before a (tensor_size params)
        \<and> tensor_size vt0 = tensor_size params \<and> memory_m vt0 = vt_before a (tensor_size params)"
  proof (cases "mt_m a")
    case None
    then show ?thesis
      by (simp add: al_def Adam_allocate_def mt_before_def vt_before_def tensor_size_def Let_def)
  next
    case (Some m)
    with s obtain v where v: "vt_m a = Some v" "tensor_size m = tensor_size params" "tensor_size v = tensor_size params"
      by (cases "vt_m a") (simp_all add: moments_fit_def)
    with Some show ?thesis
      by (simp add: al_def Adam_allocate_def mt_before_def vt_before_def Let_def)
  qed
  then obtain mt0 vt0 where al: "Adam_allocate sizeOf a params = (al, Some mt0, Some vt0)"
    and mt0: "tensor_size mt0 = tensor_size params" "memory_m mt0 = mt_before a (tensor_size params)"
    and vt0: "tensor_size vt0 = tensor_size params" "memory_m vt0 = vt_before a (tensor_size params)"
    by blast
  let ?f1 = "\<lambda>m g. flt r (flt r (flt r (beta1_m a) * m) + flt r (flt r (dbl r (dbl r (1 - beta1_m a) / dbl r (real actualMBSize))) * g))"
  let ?f2 = "\<lambda>v g. flt r (flt r (flt r (beta2_m a) * v) + flt r (flt r (dbl r (dbl r (dbl r (1 - beta2_m a) / dbl r (real actualMBSize)) / dbl r (real actualMBSize))) * flt r (g * g)))"
  let ?d1 = "dbl r (dbl r (beta1_m a * denom1_m a) + dbl r (1 - beta1_m a))"
  let ?d2 = "dbl r (dbl r (beta2_m a * denom2_m a) + dbl r (1 - beta2_m a))"
  let ?f3 = "\<lambda>p m v. flt r (p - flt r (flt r (dbl r (eta_m a * dbl r (dbl r (real actualMBSize) / dbl r (real refMBWords)))) *
                                       flt r (flt r (flt r (m / flt r ?d1) /
                                                     flt r (flt r (sqrt (flt r (v / flt r ?d2))) + eps_m a))
                                              + flt r (flt r (w_m a) * p))))"
  obtain mt1 where mt1: "Element2 ?f1 mt0 grads = Inr mt1"
    using Element2_ok [of grads mt0] g mt0 by auto
  obtain vt1 where vt1: "Element2 ?f2 vt0 grads = Inr vt1"
    using Element2_ok [of grads vt0] g vt0 by auto
  have sz: "tensor_size mt1 = tensor_size params" "tensor_size vt1 = tensor_size params"
    using Element2_size [OF mt1] Element2_size [OF vt1] mt0 vt0 by simp_all
  obtain p1 where p1: "Element3 ?f3 params mt1 vt1 = Inr p1"
    using Element3_ok [of mt1 params vt1] sz by auto
  have res: "Adam_updateImpl r sizeOf a params grads actualMBSize refMBWords
     = Inr (a\<lparr>alloc_m := Some al, mt_m := Some mt1, vt_m := Some vt1, denom1_m := ?d1, denom2_m := ?d2\<rparr>, p1)"
    using al mt1 vt1 p1 by (simp add: Adam_updateImpl_def Let_def)
  show ?thesis
    using Element2_nth [OF mt1] Element2_nth [OF vt1] Element3_nth [OF p1] Element3_size [OF p1] sz mt0 vt0
    by (simp add: res OptimizerBase.truncate_def)
qed

lemma Adam_updateImpl_denoms:
  assumes "Adam_updateImpl r sizeOf a params grads actualMBSize refMBWords = Inr (a', params')"
  shows "denom1_m a' = dbl r (dbl r (beta1_m a * denom1_m a) + dbl r (1 - beta1_m a))
       \<and> denom2_m a' = dbl r (dbl r (beta2_m a * denom2_m a) + dbl r (1 - beta2_m a))
       \<and> beta1_m a' = beta1_m a \<and> beta2_m a' = beta2_m a \<and> eps_m a' = eps_m a \<and> w_m a' = w_m a
       \<and> OptimizerBase.truncate a' = OptimizerBase.truncate a"
proof -
  obtain al mt vt where al: "Adam_allocate sizeOf a params = (al, mt, vt)"
    by (cases "Adam_allocate sizeOf a params") auto
  show ?thesis
    using assms unfolding Adam_updateImpl_def al Let_def prod.case
    by (auto split: option.splits sum.splits simp: OptimizerBase.truncate_def)
qed

lemma Adam_updates3:
  assumes "Adam_updates r sizeOf a params [c1, c2, c3] = Inr sts"
  shows "\<exists>a1 p1 a2 p2 a3 p3. sts = [(a1, p1), (a2, p2), (a3, p3)]
     \<and> Adam_updateImpl r sizeOf a params (fst c1) (fst (snd c1)) (snd (snd c1)) = Inr (a1, p1)
     \<and> Adam_updateImpl r sizeOf a1 p1 (fst c2) (fst (snd c2)) (snd (snd c2)) = Inr (a2, p2)
     \<and> Adam_updateImpl r sizeOf a2 p2 (fst c3) (fst (snd c3)) (snd (snd c3)) = Inr (a3, p3)"
  using assms
  by (cases c1; cases c2; cases c3) (auto split: sum.splits)

lemma three_denoms:
  assumes "beta1_m a = 9 / 10" "denom1_m a = 0"
    and "Adam_updates exact sizeOf a params [c1, c2, c3] = Inr sts"
  shows "map (denom1_m \<circ> fst) sts = [1 / 10, 19 / 100, 271 / 1000]"
proof -
  obtain a1 p1 a2 p2 a3 p3 where sts: "sts = [(a1, p1), (a2, p2), (a3, p3)]"
    and r1: "Adam_updateImpl exact sizeOf a params (fst c1) (fst (snd c1)) (snd (snd c1)) = Inr (a1, p1)"
    and r2: "Adam_updateImpl exact sizeOf a1 p1 (fst c2) (fst (snd c2)) (snd (snd c2)) = Inr (a2, p2)"
    and r3: "Adam_updateImpl exact sizeOf a2 p2 (fst c3) (fst (snd c3)) (snd (snd c3)) = Inr (a3, p3)"
    using Adam_updates3 [OF assms(3)] by blast
  note d1 = Adam_updateImpl_denoms [OF r1] and d2 = Adam_updateImpl_denoms [OF r2]
    and d3 = Adam_updateImpl_denoms [OF r3]
  have "denom1_m a1 = 1 / 10" using d1 assms(1,2) by (simp add: exact_def)
  moreover have "denom1_m a2 = 19 / 100" using d2 d1 assms(1,2) by (simp add: exact_def)
  moreover have "denom1_m a3 = 271 / 1000" using d3 d2 d1 assms(1,2) by (simp add: exact_def)
  ultimately show ?thesis by (simp add: sts)
qed

lemma Adam_updateImpl_exact:
  assumes h: "tensor_size grads = tensor_size params" "moments_fit a (tensor_size params)"
  shows "case Adam_updateImpl exact sizeOf a params grads actualMBSize refMBWords of
           Inl e \<Rightarrow> False
         | Inr (a', params') \<Rightarrow>
             denom1_m a' = beta1_m a * denom1_m a + (1 - beta1_m a)
           \<and> denom2_m a' = beta2_m a * denom2_m a + (1 - beta2_m a)
           \<and> tensor_size params' = tensor_size params
           \<and> (case (mt_m a', vt_m a') of
                 (Some mt', Some vt') \<Rightarrow>
                   tensor_size mt' = tensor_size params \<and> tensor_size vt' = tensor_size params
                 \<and> (\<forall>i < tensor_size params.
                      memory_m mt' ! i =
                        beta1_m a * mt_before a (tensor_size params) ! i
                          + ((1 - beta1_m a) / real actualMBSize) * memory_m grads ! i
                    \<and> memory_m vt' ! i =
                        beta2_m a * vt_before a (tensor_size params) ! i
                          + ((1 - beta2_m a) / (real actualMBSize)\<^sup>2) * (memory_m grads ! i)\<^sup>2
                    \<and> memory_m params' ! i =
                        memory_m params ! i
                          - (eta_m a * (real actualMBSize / real refMBWords))
                            * ((memory_m mt' ! i / denom1_m a')
                                 / (sqrt (memory_m vt' ! i / denom2_m a') + eps_m a)
                               + w_m a * memory_m params ! i))
               | _ \<Rightarrow> False)"
proof -
  note st = Adam_updateImpl_steps [OF h, where r = exact and sizeOf = sizeOf
      and actualMBSize = actualMBSize and refMBWords = refMBWords]
  obtain a' params' where res:
    "Adam_updateImpl exact sizeOf a params grads actualMBSize refMBWords = Inr (a', params')"
    using st by (cases "Adam_updateImpl exact sizeOf a params grads actualMBSize refMBWords") auto
  obtain mt' vt' where mv: "mt_m a' = Some mt'" "vt_m a' = Some vt'"
    using st unfolding res by (cases "mt_m a'"; cases "vt_m a'") simp_all
  show ?thesis
    using st unfolding res
    by (simp add: mv exact_def power2_eq_square)
qed


text \<open>
  C3. In exact arithmetic, a call of the Adam rule with minibatch sizes \<open>T > 0\<close> and
  \<open>Tref > 0\<close>, on tensors of equal size, sets \<open>denom1\<close> to \<open>beta1 * denom1 + (1 - beta1)\<close>
  and \<open>denom2\<close> to \<open>beta2 * denom2 + (1 - beta2)\<close>, each element of \<open>mt\<close> to
  \<open>beta1 * mt + ((1 - beta1) / T) * g\<close>, of \<open>vt\<close> to \<open>beta2 * vt + ((1 - beta2) / T\<^sup>2) * g\<^sup>2\<close>,
  and of the parameters to
  \<open>p - (eta * (T / Tref)) * ((mt / denom1) / (sqrt (vt / denom2) + eps) + w * p)\<close>, with the
  new moments and denominators; the three divisors are positive when the betas are in
  \<open>[0, 1)\<close>, \<open>eps\<close> is positive and the old denominators and second moments are not
  negative, as at the first call. With \<open>beta1 = 0.9\<close> and \<open>denom1 = 0\<close> at the start, \<open>denom1\<close>
  after three calls that return is \<open>0.1\<close>, \<open>0.19\<close>, \<open>0.271\<close>, never zero.
\<close>

theorem Adam_updateImpl_rule:
  "(0 < actualMBSize \<and> 0 < refMBWords \<and> tensor_size grads = tensor_size params
      \<and> moments_fit a (tensor_size params) \<longrightarrow>
      (case Adam_updateImpl exact sizeOf a params grads actualMBSize refMBWords of
         Inl e \<Rightarrow> False
       | Inr (a', params') \<Rightarrow>
           denom1_m a' = beta1_m a * denom1_m a + (1 - beta1_m a)
         \<and> denom2_m a' = beta2_m a * denom2_m a + (1 - beta2_m a)
         \<and> tensor_size params' = tensor_size params
         \<and> (case (mt_m a', vt_m a') of
               (Some mt', Some vt') \<Rightarrow>
                 tensor_size mt' = tensor_size params \<and> tensor_size vt' = tensor_size params
               \<and> (\<forall>i < tensor_size params.
                    memory_m mt' ! i =
                      beta1_m a * mt_before a (tensor_size params) ! i
                        + ((1 - beta1_m a) / real actualMBSize) * memory_m grads ! i
                  \<and> memory_m vt' ! i =
                      beta2_m a * vt_before a (tensor_size params) ! i
                        + ((1 - beta2_m a) / (real actualMBSize)\<^sup>2) * (memory_m grads ! i)\<^sup>2
                  \<and> memory_m params' ! i =
                      memory_m params ! i
                        - (eta_m a * (real actualMBSize / real refMBWords))
                          * ((memory_m mt' ! i / denom1_m a')
                               / (sqrt (memory_m vt' ! i / denom2_m a') + eps_m a)
                             + w_m a * memory_m params ! i)
                  \<and> (0 \<le> beta1_m a \<and> beta1_m a < 1 \<and> 0 \<le> beta2_m a \<and> beta2_m a < 1
                       \<and> 0 \<le> denom1_m a \<and> 0 \<le> denom2_m a \<and> 0 < eps_m a
                       \<and> 0 \<le> vt_before a (tensor_size params) ! i
                      \<longrightarrow> 0 < denom1_m a' \<and> 0 < denom2_m a'
                          \<and> 0 < sqrt (memory_m vt' ! i / denom2_m a') + eps_m a))
             | _ \<Rightarrow> False)))
   \<and> (beta1_m a = 9 / 10 \<and> denom1_m a = 0
        \<and> Adam_updates exact sizeOf a params [c1, c2, c3] = Inr sts \<longrightarrow>
        map (denom1_m \<circ> fst) sts = [1 / 10, 19 / 100, 271 / 1000]
        \<and> (\<forall>s \<in> set sts. denom1_m (fst s) \<noteq> 0))"
proof (intro conjI impI)
  assume h: "0 < actualMBSize \<and> 0 < refMBWords \<and> tensor_size grads = tensor_size params
      \<and> moments_fit a (tensor_size params)"
  then have h': "tensor_size grads = tensor_size params" "moments_fit a (tensor_size params)"
    by simp_all
  note st = Adam_updateImpl_exact [OF h', where sizeOf = sizeOf
      and actualMBSize = actualMBSize and refMBWords = refMBWords]
  obtain a' params' where res:
    "Adam_updateImpl exact sizeOf a params grads actualMBSize refMBWords = Inr (a', params')"
    using st by (cases "Adam_updateImpl exact sizeOf a params grads actualMBSize refMBWords") auto
  obtain mt' vt' where mv: "mt_m a' = Some mt'" "vt_m a' = Some vt'"
    using st unfolding res by (cases "mt_m a'"; cases "vt_m a'") simp_all
  have d1: "denom1_m a' = beta1_m a * denom1_m a + (1 - beta1_m a)"
    and d2: "denom2_m a' = beta2_m a * denom2_m a + (1 - beta2_m a)"
    using st unfolding res by (simp_all add: mv)
  have pos: "0 < denom1_m a' \<and> 0 < denom2_m a' \<and> 0 < sqrt (memory_m vt' ! i / denom2_m a') + eps_m a"
    if i: "i < tensor_size params"
      and c: "0 \<le> beta1_m a \<and> beta1_m a < 1 \<and> 0 \<le> beta2_m a \<and> beta2_m a < 1
                       \<and> 0 \<le> denom1_m a \<and> 0 \<le> denom2_m a \<and> 0 < eps_m a
                       \<and> 0 \<le> vt_before a (tensor_size params) ! i" for i
  proof -
    have p1: "0 < denom1_m a'" unfolding d1 using c by (intro add_nonneg_pos mult_nonneg_nonneg) simp_all
    have p2: "0 < denom2_m a'" unfolding d2 using c by (intro add_nonneg_pos mult_nonneg_nonneg) simp_all
    have v: "memory_m vt' ! i = beta2_m a * vt_before a (tensor_size params) ! i
                        + ((1 - beta2_m a) / (real actualMBSize)\<^sup>2) * (memory_m grads ! i)\<^sup>2"
      using st i unfolding res by (simp add: mv)
    have "0 \<le> memory_m vt' ! i" unfolding v using c
      by (intro add_nonneg_nonneg mult_nonneg_nonneg divide_nonneg_nonneg) simp_all
    then have "0 \<le> sqrt (memory_m vt' ! i / denom2_m a')" using p2 by simp
    then show ?thesis using p1 p2 c by linarith
  qed
  show "case Adam_updateImpl exact sizeOf a params grads actualMBSize refMBWords of
         Inl e \<Rightarrow> False
       | Inr (a', params') \<Rightarrow>
           denom1_m a' = beta1_m a * denom1_m a + (1 - beta1_m a)
         \<and> denom2_m a' = beta2_m a * denom2_m a + (1 - beta2_m a)
         \<and> tensor_size params' = tensor_size params
         \<and> (case (mt_m a', vt_m a') of
               (Some mt', Some vt') \<Rightarrow>
                 tensor_size mt' = tensor_size params \<and> tensor_size vt' = tensor_size params
               \<and> (\<forall>i < tensor_size params.
                    memory_m mt' ! i =
                      beta1_m a * mt_before a (tensor_size params) ! i
                        + ((1 - beta1_m a) / real actualMBSize) * memory_m grads ! i
                  \<and> memory_m vt' ! i =
                      beta2_m a * vt_before a (tensor_size params) ! i
                        + ((1 - beta2_m a) / (real actualMBSize)\<^sup>2) * (memory_m grads ! i)\<^sup>2
                  \<and> memory_m params' ! i =
                      memory_m params ! i
                        - (eta_m a * (real actualMBSize / real refMBWords))
                          * ((memory_m mt' ! i / denom1_m a')
                               / (sqrt (memory_m vt' ! i / denom2_m a') + eps_m a)
                             + w_m a * memory_m params ! i)
                  \<and> (0 \<le> beta1_m a \<and> beta1_m a < 1 \<and> 0 \<le> beta2_m a \<and> beta2_m a < 1
                       \<and> 0 \<le> denom1_m a \<and> 0 \<le> denom2_m a \<and> 0 < eps_m a
                       \<and> 0 \<le> vt_before a (tensor_size params) ! i
                      \<longrightarrow> 0 < denom1_m a' \<and> 0 < denom2_m a'
                          \<and> 0 < sqrt (memory_m vt' ! i / denom2_m a') + eps_m a))
             | _ \<Rightarrow> False)"
    using st pos unfolding res by (simp add: mv)
next
  assume h: "beta1_m a = 9 / 10 \<and> denom1_m a = 0
        \<and> Adam_updates exact sizeOf a params [c1, c2, c3] = Inr sts"
  then have d: "map (denom1_m \<circ> fst) sts = [1 / 10, 19 / 100, 271 / 1000]"
    using three_denoms [of a sizeOf params c1 c2 c3 sts] by simp
  then show "map (denom1_m \<circ> fst) sts = [1 / 10, 19 / 100, 271 / 1000]" .
  have "\<forall>x \<in> set (map (denom1_m \<circ> fst) sts). x \<noteq> 0" unfolding d by simp
  then show "\<forall>s \<in> set sts. denom1_m (fst s) \<noteq> 0" by simp
qed


theorem Adam_updateImpl_rule_witness:
  "(0 :: nat) < 1 \<and> tensor_size (tensor32 [1]) = tensor_size (tensor32 [0])
   \<and> moments_fit ex_Adam (tensor_size (tensor32 [0]))
   \<and> (case Adam_updateImpl exact ex_sizeOf ex_Adam (tensor32 [0]) (tensor32 [1]) 1 1 of
         Inl e \<Rightarrow> False
       | Inr (a', params') \<Rightarrow>
           denom1_m a' = 1 / 10 \<and> denom2_m a' = 1 / 1000
         \<and> map_option memory_m (mt_m a') = Some [1 / 10]
         \<and> map_option memory_m (vt_m a') = Some [1 / 1000]
         \<and> memory_m params' = [- (1000000 / 100000001)])
   \<and> beta1_m ex_Adam = 9 / 10 \<and> denom1_m ex_Adam = 0
   \<and> (case Adam_updates exact ex_sizeOf ex_Adam (tensor32 [0])
              [(tensor32 [1], 1, 1), (tensor32 [1], 1, 1), (tensor32 [1], 1, 1)] of
         Inl e \<Rightarrow> False
       | Inr sts \<Rightarrow>
           map (denom1_m \<circ> fst) sts = [1 / 10, 19 / 100, 271 / 1000]
         \<and> map (memory_m \<circ> snd) sts
             = [[- (1000000 / 100000001)], [- (2000000 / 100000001)], [- (3000000 / 100000001)]])"
  using Adam_updateImpl_rule [where sizeOf = ex_sizeOf and a = ex_Adam and params = "tensor32 [0]"
      and grads = "tensor32 [1]" and actualMBSize = 1 and refMBWords = 1
      and ?c1.0 = "(tensor32 [1], 1, 1)" and ?c2.0 = "(tensor32 [1], 1, 1)"
      and ?c3.0 = "(tensor32 [1], 1, 1)"]
  by (simp add: ex_Adam_def tensor32_def moments_fit_def Adam_updateImpl_def Adam_allocate_def
      New_Adam_def New_OptimizerBase_def OptimizerBase.extend_def Element2_def Element3_def
      tensor_size_def exact_def Let_def)

subsection \<open>Checkpoints\<close>

lemma Adagrad_load_items_absent:
  assumes "\<forall>item \<in> set items. name item \<noteq> ''adagrad_gt''"
  shows "Adagrad_load_items items vGt = Inr vGt"
  using assms by (induction items arbitrary: vGt) simp_all

lemma Adam_load_items_no_mt:
  assumes "\<forall>item \<in> set items. name item \<noteq> ''adam_mt''"
    and "Adam_load_items items (vMt, vVt, vDenoms) = Inr (vMt', vVt', vDenoms')"
  shows "vMt' = vMt"
  using assms
  by (induction items arbitrary: vVt vDenoms) (auto simp: Let_def split: if_splits sum.splits)

lemma Adam_load_items_no_vt:
  assumes "\<forall>item \<in> set items. name item \<noteq> ''adam_vt''"
    and "Adam_load_items items (vMt, vVt, vDenoms) = Inr (vMt', vVt', vDenoms')"
  shows "vVt' = vVt"
  using assms
  by (induction items arbitrary: vMt vDenoms) (auto simp: Let_def split: if_splits sum.splits)

lemma Adam_load_items_no_denoms:
  assumes "\<forall>item \<in> set items. name item \<noteq> ''adam_denoms''"
    and "Adam_load_items items (vMt, vVt, vDenoms) = Inr (vMt', vVt', vDenoms')"
  shows "vDenoms' = vDenoms"
  using assms
  by (induction items arbitrary: vMt vVt) (auto simp: Let_def split: if_splits sum.splits)

text \<open>
  C7 (as amended). When \<open>opts\<close> and \<open>backends\<close> have the same length: \<^verbatim>\<open>load\<close> of a file that
  does not exist returns with nothing changed, for Adagrad and for Adam. \<^verbatim>\<open>load\<close> of an
  existing file with no \<open>adagrad_gt\<close> item (Adagrad), or whose items leave the vector of
  one of the moments empty, as when the \<open>adam_mt\<close> or the \<open>adam_vt\<close> item is missing (Adam),
  logs the warning after the information message and returns with the optimizers as
  they were. \<^verbatim>\<open>Adam::load\<close> of a file whose two vectors are both not empty and of
  different lengths aborts.
\<close>

theorem load_cold_start_and_missing_items:
  "(length opts = length backends \<and> files d fname = None \<longrightarrow>
      Adagrad_load fname opts backends scatterFn d = (None, d)
      \<and> Adam_load junk vDenoms0 this fname opts backends scatterFn d = (None, d))
   \<and> (length opts = length backends \<and> files d fname = Some items
        \<and> (\<forall>item \<in> set items. name item \<noteq> ''adagrad_gt'') \<longrightarrow>
        Adagrad_load fname opts backends scatterFn d
          = (None, d\<lparr>events := events d @
               [LogInfo (''Loading Adagrad parameters from '' @ fname),
                LogWarn ''[warn] Adagrad parameters not found in .npz file'']\<rparr>))
   \<and> (length opts = length backends \<and> files d fname = Some items
        \<and> Adam_load_items items ([], [], [fst vDenoms0, snd vDenoms0]) = Inr (vMt, vVt, vDenoms)
        \<and> ((\<forall>item \<in> set items. name item \<noteq> ''adam_mt'')
            \<or> (\<forall>item \<in> set items. name item \<noteq> ''adam_vt'')
            \<or> vMt = [] \<or> vVt = []) \<longrightarrow>
        Adam_load junk vDenoms0 this fname opts backends scatterFn d
          = (None, d\<lparr>events := events d @
               [LogInfo (''Loading Adam parameters from '' @ fname),
                LogWarn ''[warn] Adam parameters not found in .npz file'']\<rparr>))
   \<and> (length opts = length backends \<and> files d fname = Some items
        \<and> Adam_load_items items ([], [], [fst vDenoms0, snd vDenoms0]) = Inr (vMt, vVt, vDenoms)
        \<and> vMt \<noteq> [] \<and> vVt \<noteq> [] \<and> length vMt \<noteq> length vVt \<longrightarrow>
        Adam_load junk vDenoms0 this fname opts backends scatterFn d
          = (Some (Abort ''mt and vt have different sizes??''),
             d\<lparr>events := events d @ [LogInfo (''Loading Adam parameters from '' @ fname)]\<rparr>))"
proof (intro conjI impI)
  assume "length opts = length backends \<and> files d fname = None"
  then show "Adagrad_load fname opts backends scatterFn d = (None, d)"
    and "Adam_load junk vDenoms0 this fname opts backends scatterFn d = (None, d)"
    by (simp_all add: Adagrad_load_def Adam_load_def)
next
  assume h: "length opts = length backends \<and> files d fname = Some items
        \<and> (\<forall>item \<in> set items. name item \<noteq> ''adagrad_gt'')"
  then have "Adagrad_load_items items [] = Inr []"
    using Adagrad_load_items_absent by blast
  with h show "Adagrad_load fname opts backends scatterFn d
          = (None, d\<lparr>events := events d @
               [LogInfo (''Loading Adagrad parameters from '' @ fname),
                LogWarn ''[warn] Adagrad parameters not found in .npz file'']\<rparr>)"
    by (simp add: Adagrad_load_def logged_def)
next
  assume h: "length opts = length backends \<and> files d fname = Some items
        \<and> Adam_load_items items ([], [], [fst vDenoms0, snd vDenoms0]) = Inr (vMt, vVt, vDenoms)
        \<and> ((\<forall>item \<in> set items. name item \<noteq> ''adam_mt'')
            \<or> (\<forall>item \<in> set items. name item \<noteq> ''adam_vt'')
            \<or> vMt = [] \<or> vVt = [])"
  then have "vMt = [] \<or> vVt = []"
    using Adam_load_items_no_mt Adam_load_items_no_vt by blast
  with h show "Adam_load junk vDenoms0 this fname opts backends scatterFn d
          = (None, d\<lparr>events := events d @
               [LogInfo (''Loading Adam parameters from '' @ fname),
                LogWarn ''[warn] Adam parameters not found in .npz file'']\<rparr>)"
    by (simp add: Adam_load_def logged_def)
next
  assume h: "length opts = length backends \<and> files d fname = Some items
        \<and> Adam_load_items items ([], [], [fst vDenoms0, snd vDenoms0]) = Inr (vMt, vVt, vDenoms)
        \<and> vMt \<noteq> [] \<and> vVt \<noteq> [] \<and> length vMt \<noteq> length vVt"
  then show "Adam_load junk vDenoms0 this fname opts backends scatterFn d
          = (Some (Abort ''mt and vt have different sizes??''),
             d\<lparr>events := events d @ [LogInfo (''Loading Adam parameters from '' @ fname)]\<rparr>)"
    by (simp add: Adam_load_def logged_def)
qed

text \<open>
  C8. \<^verbatim>\<open>Adagrad::save\<close> calls the gather function once and \<^verbatim>\<open>Adam::save\<close> twice, whether
  the process is the main one or not. When the calls return, a process that is not the
  main one returns with the files as they were; the main process writes the file: one
  \<^verbatim>\<open>float32\<close> item with the gathered vector (Adagrad), or the two gathered vectors as
  \<^verbatim>\<open>float32\<close> items and a \<^verbatim>\<open>float64\<close> item of shape \<open>{1, 2}\<close> with the two denominators of
  the optimizer (Adam).
\<close>

theorem save_gathers_main_writes:
  "(gatherFn (Adagrad_save_get opts (objs d)) = Inr vGt \<longrightarrow>
      Adagrad_save fname opts gatherFn isMainProcess d
        = (None,
           d\<lparr>files := (if isMainProcess
                        then (files d)(fname \<mapsto>
                           [\<lparr>name = ''adagrad_gt'', shape = [1, length vGt], type = float32, bytes = vGt\<rparr>])
                        else files d),
              events := events d
                @ [LogInfo (''Saving Adagrad parameters to '' @ fname), Gather]
                @ (if isMainProcess
                   then [SaveItems fname
                           [\<lparr>name = ''adagrad_gt'', shape = [1, length vGt], type = float32, bytes = vGt\<rparr>]]
                   else [])\<rparr>))
   \<and> (gatherFn (Adam_save_getMt opts (objs d)) = Inr vMt
        \<and> gatherFn (Adam_save_getVt opts (objs d)) = Inr vVt
        \<and> objs d this = Some (AdamOpt a) \<longrightarrow>
        Adam_save this fname opts gatherFn isMainProcess d
          = (None,
             d\<lparr>files := (if isMainProcess
                          then (files d)(fname \<mapsto>
                             [\<lparr>name = ''adam_mt'', shape = [1, length vMt], type = float32, bytes = vMt\<rparr>,
                              \<lparr>name = ''adam_vt'', shape = [1, length vVt], type = float32, bytes = vVt\<rparr>,
                              \<lparr>name = ''adam_denoms'', shape = [1, 2], type = float64,
                               bytes = [denom1_m a, denom2_m a]\<rparr>])
                          else files d),
                events := events d
                  @ (if isMainProcess then [LogInfo (''Saving Adam parameters to '' @ fname)] else [])
                  @ [Gather, Gather]
                  @ (if isMainProcess
                     then [SaveItems fname
                             [\<lparr>name = ''adam_mt'', shape = [1, length vMt], type = float32, bytes = vMt\<rparr>,
                              \<lparr>name = ''adam_vt'', shape = [1, length vVt], type = float32, bytes = vVt\<rparr>,
                              \<lparr>name = ''adam_denoms'', shape = [1, 2], type = float64,
                               bytes = [denom1_m a, denom2_m a]\<rparr>]]
                     else [])\<rparr>))"
  by (simp add: Adagrad_save_def Adam_save_def logged_def Let_def numeral_2_eq_2)


theorem load_cold_start_and_missing_items_witness:
  "length [2 :: nat] = length [0 :: nat] \<and> files ex_disk ''none.npz'' = None
   \<and> Adagrad_load ''none.npz'' [2] [0] ex_scatterFn ex_disk = (None, ex_disk)
   \<and> Adam_load (\<lambda>_. 0) (3, 5) 2 ''none.npz'' [2] [0] ex_scatterFn ex_disk = (None, ex_disk)
   \<and> map name (the (files ex_disk ''legacy.npz'')) = [''adam_mt'', ''adam_vt'']
   \<and> Adagrad_load ''legacy.npz'' [2] [0] ex_scatterFn ex_disk
       = (None, ex_disk\<lparr>events :=
            [LogInfo ''Loading Adagrad parameters from legacy.npz'',
             LogWarn ''[warn] Adagrad parameters not found in .npz file'']\<rparr>)
   \<and> Adam_load_items (the (files ex_disk ''mt_only.npz'')) ([], [], [3, 5]) = Inr ([7], [], [3, 5])
   \<and> Adam_load (\<lambda>_. 0) (3, 5) 2 ''mt_only.npz'' [2] [0] ex_scatterFn ex_disk
       = (None, ex_disk\<lparr>events :=
            [LogInfo ''Loading Adam parameters from mt_only.npz'',
             LogWarn ''[warn] Adam parameters not found in .npz file'']\<rparr>)
   \<and> Adam_load_items (the (files ex_disk ''mismatch.npz'')) ([], [], [3, 5]) = Inr ([7, 8], [9], [3, 5])
   \<and> Adam_load (\<lambda>_. 0) (3, 5) 2 ''mismatch.npz'' [2] [0] ex_scatterFn ex_disk
       = (Some (Abort ''mt and vt have different sizes??''),
          ex_disk\<lparr>events := [LogInfo ''Loading Adam parameters from mismatch.npz'']\<rparr>)"
  using load_cold_start_and_missing_items [where opts = "[2]" and backends = "[0]" and d = ex_disk
      and fname = "''none.npz''" and scatterFn = ex_scatterFn and junk = "\<lambda>_. 0"
      and ?vDenoms0.0 = "(3, 5)" and this = 2]
    load_cold_start_and_missing_items [where opts = "[2]" and backends = "[0]" and d = ex_disk
      and fname = "''legacy.npz''" and scatterFn = ex_scatterFn
      and items = "the (files ex_disk ''legacy.npz'')"]
    load_cold_start_and_missing_items [where opts = "[2]" and backends = "[0]" and d = ex_disk
      and fname = "''mt_only.npz''" and scatterFn = ex_scatterFn and junk = "\<lambda>_. 0"
      and ?vDenoms0.0 = "(3, 5)" and this = 2
      and items = "the (files ex_disk ''mt_only.npz'')" and vMt = "[7]" and vVt = "[]"
      and vDenoms = "[3, 5]"]
    load_cold_start_and_missing_items [where opts = "[2]" and backends = "[0]" and d = ex_disk
      and fname = "''mismatch.npz''" and scatterFn = ex_scatterFn and junk = "\<lambda>_. 0"
      and ?vDenoms0.0 = "(3, 5)" and this = 2
      and items = "the (files ex_disk ''mismatch.npz'')" and vMt = "[7, 8]" and vVt = "[9]"
      and vDenoms = "[3, 5]"]
  by (simp add: ex_disk_def item_data_def elements_def)

text \<open>
  C7 as it is written fails when \<open>opts\<close> and \<open>backends\<close> have different lengths: the check
  of the lengths comes before the check of the file, so \<^verbatim>\<open>load\<close> of a file that does not
  exist aborts.
\<close>

theorem load_mismatched_backends_counterexample:
  "files ex_disk ''none.npz'' = None
   \<and> Adam_load (\<lambda>_. 0) (3, 5) 2 ''none.npz'' [2] [] ex_scatterFn ex_disk
       = (Some (Abort ''opts and backends of different sizes??''), ex_disk)
   \<and> Adagrad_load ''none.npz'' [1] [] ex_scatterFn ex_disk
       = (Some (Abort ''opts and backends of different sizes??''), ex_disk)"
  by (simp add: ex_disk_def Adam_load_def Adagrad_load_def)

theorem save_gathers_main_writes_witness:
  "ex_gatherFn (Adagrad_save_get [1] (objs ex_disk)) = Inr [4]
   \<and> Adagrad_save ''ada.npz'' [1] ex_gatherFn False ex_disk
       = (None, ex_disk\<lparr>events := [LogInfo ''Saving Adagrad parameters to ada.npz'', Gather]\<rparr>)
   \<and> ex_gatherFn (Adam_save_getMt [0] (objs ex_disk)) = Inr [1 / 10]
   \<and> ex_gatherFn (Adam_save_getVt [0] (objs ex_disk)) = Inr [1 / 1000]
   \<and> objs ex_disk 0 = Some (AdamOpt ex_Adam_trained)
   \<and> Adam_save 0 ''adam.npz'' [0] ex_gatherFn False ex_disk
       = (None, ex_disk\<lparr>events := [Gather, Gather]\<rparr>)
   \<and> files (snd (Adam_save 0 ''adam.npz'' [0] ex_gatherFn True ex_disk)) ''adam.npz''
       = Some [\<lparr>name = ''adam_mt'', shape = [1, 1], type = float32, bytes = [1 / 10]\<rparr>,
               \<lparr>name = ''adam_vt'', shape = [1, 1], type = float32, bytes = [1 / 1000]\<rparr>,
               \<lparr>name = ''adam_denoms'', shape = [1, 2], type = float64, bytes = [1 / 10, 1 / 1000]\<rparr>]"
  using save_gathers_main_writes [where gatherFn = ex_gatherFn and opts = "[1]" and d = ex_disk
      and vGt = "[4]" and fname = "''ada.npz''" and isMainProcess = False]
    save_gathers_main_writes [where gatherFn = ex_gatherFn and opts = "[0]" and d = ex_disk
      and vMt = "[1 / 10]" and vVt = "[1 / 1000]" and this = 0 and a = ex_Adam_trained
      and fname = "''adam.npz''" and isMainProcess = False]
    save_gathers_main_writes [where gatherFn = ex_gatherFn and opts = "[0]" and d = ex_disk
      and vMt = "[1 / 10]" and vVt = "[1 / 1000]" and this = 0 and a = ex_Adam_trained
      and fname = "''adam.npz''" and isMainProcess = True]
  by (simp add: ex_disk_def ex_gatherFn_def Adagrad_save_get_def Adam_save_getMt_def Adam_save_getVt_def
      opt_at_def ex_Adam_trained_def ex_Adagrad_trained_def tensor32_def)

text \<open>
  The denominators after \<^verbatim>\<open>Adam::load\<close> of a file with both moments and no \<open>adam_denoms\<close>
  item are what the local \<open>vDenoms\<close> started with.
\<close>

lemma Adam_load_denoms_from_stack:
  assumes ok: "Adam_load junk vDenoms0 this fname opts backends scatterFn d = (None, d')"
    and exists: "files d fname = Some items"
    and legacy: "\<forall>item \<in> set items. name item \<noteq> ''adam_denoms''"
    and parsed: "Adam_load_items items ([], [], [fst vDenoms0, snd vDenoms0]) = Inr (vMt, vVt, vDenoms)"
    and present: "vMt \<noteq> []" "vVt \<noteq> []"
  shows "case objs d' this of
           Some (AdamOpt a) \<Rightarrow> denom1_m a = fst vDenoms0 \<and> denom2_m a = snd vDenoms0
         | _ \<Rightarrow> False"
proof -
  have v: "vDenoms = [fst vDenoms0, snd vDenoms0]"
    using Adam_load_items_no_denoms [OF legacy parsed] .
  show ?thesis
    using ok exists parsed present
    by (auto simp: Adam_load_def v Let_def split: if_splits prod.splits option.splits optimizer.splits)
qed

text \<open>
  C1. The code does not keep what the claim, and its own comment, say. A new Adam loads a
  file with the items \<open>adam_mt\<close> and \<open>adam_vt\<close> and no \<open>adam_denoms\<close>, while the memory of the
  uninitialized local \<open>vDenoms\<close> holds 3 and 5: the moments are loaded, and the
  denominators are 3 and 5 afterwards, not zero.
\<close>

theorem Adam_load_legacy_denoms:
  "(case Adam_load (\<lambda>_. 0) (3, 5) 2 ''legacy.npz'' [2] [0] ex_scatterFn ex_disk of
      (None, d') \<Rightarrow>
        (case objs d' 2 of
           Some (AdamOpt a) \<Rightarrow>
             denom1_m a = 3 \<and> denom2_m a = 5
           \<and> map_option memory_m (mt_m a) = Some [7] \<and> map_option memory_m (vt_m a) = Some [9]
         | _ \<Rightarrow> False)
    | _ \<Rightarrow> False)
   \<and> map name (the (files ex_disk ''legacy.npz'')) = [''adam_mt'', ''adam_vt'']"
  by (simp add: ex_disk_def Adam_load_def Adam_load_setMt_def Adam_load_setVt_def scatter_def
      ex_scatterFn_def logged_def item_data_def elements_def opt_at_def ex_Adam_def New_Adam_def
      New_OptimizerBase_def OptimizerBase.extend_def set_vector_def tensor_size_def Let_def
      New_TensorAllocator_def reserveExact_def exact_def)

subsection \<open>The arena of the update call\<close>

lemma truncate_fields:
  assumes "OptimizerBase.truncate opt' = OptimizerBase.truncate opt"
  shows "mvAvg_m opt' = mvAvg_m opt" "eta_m opt' = eta_m opt"
    "refMBWordsParam_m opt' = refMBWordsParam_m opt" "costScale_m opt' = costScale_m opt"
    "batchesSeen_m opt' = batchesSeen_m opt" "clipper_m opt' = clipper_m opt"
    "optimizerType_m opt' = optimizerType_m opt" "optAlloc_m opt' = optAlloc_m opt"
    "avg_m opt' = avg_m opt" "pm_m opt' = pm_m opt" "gd_m opt' = gd_m opt"
  using assms by (simp_all add: OptimizerBase.truncate_def)

lemma reservations_emit [simp]:
  "reservations (emit e w) = reservations w + (if is_reserve e then 1 else 0)"
  by (simp add: reservations_def emit_def)

lemma reservations_heap [simp]: "reservations (w\<lparr>heap := h\<rparr>) = reservations w"
  by (simp add: reservations_def)

lemma reservations_fresh [simp]: "reservations (w\<lparr>fresh := h\<rparr>) = reservations w"
  by (simp add: reservations_def)

lemma CopyCast_reservations:
  "CopyCast r out src w = (e, w') \<Longrightarrow> reservations w' = reservations w"
  by (auto simp: CopyCast_def split: option.splits if_splits)

lemma allocate_reservations:
  "allocate n ty al w = (a, al', w') \<Longrightarrow> reservations w' = reservations w \<and> reserved al' = reserved al"
  by (auto simp: allocate_def)

lemma arena_allocAvg:
  assumes "arena_once (opt, w)"
  shows "arena_once (update_allocAvg sizeOf c n (opt, w))"
  using assms
  by (auto simp: arena_once_def update_allocAvg_def allocate_def reserveExact_def New_TensorAllocator_def Let_def
      split: option.splits)

lemma arena_cast_pair:
  assumes "arena_once (opt, w)" and "update_cast r sizeOf c n params grads (opt, w) = (e, s')"
  shows "arena_once s'"
proof (cases c)
  case False
  with assms show ?thesis by (auto simp: update_cast_def arena_once_def split: option.splits)
next
  case True
  define al where "al = (case optAlloc_m opt of None \<Rightarrow> reserveExact (2 * n * sizeOf (optimizerType_m opt)) New_TensorAllocator | Some x \<Rightarrow> x)"
  define w1 where "w1 = (case optAlloc_m opt of None \<Rightarrow> emit (EvReserveExact (2 * n * sizeOf (optimizerType_m opt))) w | Some x \<Rightarrow> w)"
  have a1: "reservations w1 = 1" "length (reserved al) = 1"
    using assms(1) by (auto simp: arena_once_def al_def w1_def reserveExact_def New_TensorAllocator_def split: option.splits)
  show ?thesis
  proof (cases "pm_m opt")
    case None
    obtain pm al2 w2 where p: "allocate n (optimizerType_m opt) al w1 = (pm, al2, w2)" by (metis prod_cases3)
    obtain gd al3 w3 where g: "allocate n (optimizerType_m opt) al2 w2 = (gd, al3, w3)" by (metis prod_cases3)
    obtain e4 w4 where c4: "CopyCast r (Some pm) (Some params) w3 = (e4, w4)" by (metis prod.exhaust)
    obtain e5 w5 where c5: "CopyCast r (Some gd) (Some grads) w4 = (e5, w5)" by (metis prod.exhaust)
    have r5: "reservations w5 = 1" "reservations w4 = 1" "length (reserved al3) = 1"
      using allocate_reservations [OF p] allocate_reservations [OF g] CopyCast_reservations [OF c4]
        CopyCast_reservations [OF c5] a1 by simp_all
    have "s' = (opt\<lparr>optAlloc_m := Some al3, pm_m := Some pm, gd_m := Some gd\<rparr>, w4)
        \<or> s' = (opt\<lparr>optAlloc_m := Some al3, pm_m := Some pm, gd_m := Some gd\<rparr>, w5)"
      using assms(2) True None p g c4 c5
      by (cases "optAlloc_m opt"; cases e4)
         (auto simp: update_cast_def al_def w1_def Let_def)
    then show ?thesis using r5 by (auto simp: arena_once_def)
  next
    case (Some pm)
    obtain e5 w5 where c5: "CopyCast r (gd_m opt) (Some grads) w1 = (e5, w5)" by (metis prod.exhaust)
    have "s' = (opt\<lparr>optAlloc_m := Some al\<rparr>, w5)"
      using assms(2) True Some c5
      by (cases "optAlloc_m opt") (auto simp: update_cast_def al_def w1_def Let_def)
    then show ?thesis using a1 CopyCast_reservations [OF c5] by (auto simp: arena_once_def)
  qed
qed


lemma arena_cast:
  assumes "arena_once s" and "update_cast r sizeOf c n params grads s = (e, s')"
  shows "arena_once s'"
  using assms arena_cast_pair by (cases s) blast

lemma arena_unscale:
  assumes "arena_once s" and "update_unscale r s = (e, s')"
  shows "arena_once s'"
  using assms
  by (cases s) (auto simp: update_unscale_def arena_once_def split: option.splits if_splits)

lemma arena_clip:
  assumes "arena_once s" and "update_clip clip grads s = (e, s')"
  shows "arena_once s'"
  using assms
  by (cases s) (auto simp: update_clip_def arena_once_def split: option.splits if_splits)

lemma arena_rule:
  assumes "keeps_base impl" and "arena_once s" and "update_rule impl mb rf s = (e, s')"
  shows "arena_once s'"
proof -
  obtain opt w where s: "s = (opt, w)" by (cases s)
  have k: "\<And>p g opt' p'. impl opt p g mb rf = Inr (opt', p') \<Longrightarrow> optAlloc_m opt' = optAlloc_m opt"
    using assms(1) truncate_fields(8) unfolding keeps_base_def by blast
  show ?thesis
    using assms(2,3) unfolding s
    by (auto simp: update_rule_def arena_once_def Let_def dest!: k split: option.splits sum.splits)
qed

lemma arena_avg:
  assumes "arena_once s" and "update_avg avgFn mb s = (e, s')"
  shows "arena_once s'"
  using assms
  by (cases s) (auto simp: update_avg_def arena_once_def split: option.splits if_splits)

lemma arena_castBack:
  assumes "arena_once s" and "update_castBack r c params s = (e, s')"
  shows "arena_once s'"
proof -
  obtain opt w where s: "s = (opt, w)" by (cases s)
  show ?thesis
  proof (cases c)
    case False
    with assms show ?thesis by (simp add: s update_castBack_def)
  next
    case True
    obtain e1 w1 where c1: "CopyCast r (Some params) (pm_m opt) w = (e1, w1)" by (metis prod.exhaust)
    then have "s' = (opt, w1)" using assms(2) True by (simp add: s update_castBack_def)
    then show ?thesis using assms(1) CopyCast_reservations [OF c1]
      by (auto simp: s arena_once_def split: option.splits)
  qed
qed

lemma arena_synchronize:
  assumes "arena_once s" and "update_synchronize s = (e, s')"
  shows "arena_once s'"
  using assms by (cases s) (auto simp: update_synchronize_def arena_once_def split: option.splits)

lemma andThen_cases:
  assumes "andThen f g s = (e, s'')"
  obtains (stop) x where "f s = (Some x, s'')" "e = Some x"
        | (go) s' where "f s = (None, s')" "g s' = (e, s'')"
  using assms by (auto simp: andThen_def split: prod.splits option.splits)

lemma andThen_preserves:
  assumes f: "\<And>s e s'. P s \<Longrightarrow> f s = (e, s') \<Longrightarrow> P s'"
    and g: "\<And>s e s'. P s \<Longrightarrow> g s = (e, s') \<Longrightarrow> P s'"
    and "P s" and "andThen f g s = (e, s')"
  shows "P s'"
  using assms(4)
proof (cases rule: andThen_cases)
  case (stop x)
  then show ?thesis using f assms(3) by blast
next
  case (go s1)
  then show ?thesis using f g assms(3) by blast
qed

lemma update_invariant:
  assumes i0: "\<And>c n s. P s \<Longrightarrow> P (update_allocAvg sizeOf c n s)"
    and i1: "\<And>c n s e s'. P s \<Longrightarrow> update_cast r sizeOf c n params grads s = (e, s') \<Longrightarrow> P s'"
    and i2: "\<And>s e s'. P s \<Longrightarrow> update_unscale r s = (e, s') \<Longrightarrow> P s'"
    and i3: "\<And>s e s'. P s \<Longrightarrow> update_clip clip grads s = (e, s') \<Longrightarrow> P s'"
    and i4: "\<And>mb rf s e s'. P s \<Longrightarrow> update_rule impl mb rf s = (e, s') \<Longrightarrow> P s'"
    and i5: "\<And>mb s e s'. P s \<Longrightarrow> update_avg avgFn mb s = (e, s') \<Longrightarrow> P s'"
    and i6: "\<And>c s e s'. P s \<Longrightarrow> update_castBack r c params s = (e, s') \<Longrightarrow> P s'"
    and i7: "\<And>s e s'. P s \<Longrightarrow> update_synchronize s = (e, s') \<Longrightarrow> P s'"
    and a: "P s"
    and u: "update r sizeOf clip avgFn impl params grads mbSize s = (e, s')"
  shows "P s'"
proof -
  obtain opt w where s: "s = (opt, w)" by (cases s)
  show ?thesis
  proof (cases "refMBWordsParam_m opt \<noteq> 0 \<and> mbSize = mbSizeNotProvided")
    case True
    then show ?thesis using u a by (simp add: s update_def)
  next
    case False
    show ?thesis
    proof (cases "heap w params")
      case None
      then show ?thesis using u a False by (auto simp: s update_def Let_def split: if_splits)
    next
      case (Some p)
      define mb where "mb = (if refMBWordsParam_m opt = 0 then 1 else mbSize)"
      define rf where "rf = (if refMBWordsParam_m opt = 0 then 1 else refMBWordsParam_m opt)"
      define c where "c = (type_m p \<noteq> optimizerType_m opt)"
      have run: "andThen (update_cast r sizeOf c (tensor_size p) params grads)
                   (andThen (update_unscale r)
                   (andThen (update_clip clip grads)
                   (andThen (update_rule impl mb rf)
                   (andThen (update_avg avgFn mb)
                   (andThen (update_castBack r c params)
                    update_synchronize)))))
                   (update_allocAvg sizeOf c (tensor_size p) (opt, w)) = (e, s')"
        using u False Some by (auto simp: s update_def Let_def mb_def rf_def c_def split: if_splits)
      have a0: "P (update_allocAvg sizeOf c (tensor_size p) (opt, w))"
        using i0 a unfolding s by blast
      have s7: "\<And>s e s'. P s \<Longrightarrow>
          andThen (update_castBack r c params) update_synchronize s = (e, s') \<Longrightarrow> P s'"
        by (rule andThen_preserves [where P = P and f = "update_castBack r c params"
              and g = update_synchronize]) (blast intro: i6 i7)+
      have s6: "\<And>s e s'. P s \<Longrightarrow>
          andThen (update_avg avgFn mb) (andThen (update_castBack r c params) update_synchronize) s
            = (e, s') \<Longrightarrow> P s'"
        by (rule andThen_preserves [where P = P and f = "update_avg avgFn mb"
              and g = "andThen (update_castBack r c params) update_synchronize"])
           (blast intro: i5 s7)+
      have s5: "\<And>s e s'. P s \<Longrightarrow>
          andThen (update_rule impl mb rf) (andThen (update_avg avgFn mb)
            (andThen (update_castBack r c params) update_synchronize)) s = (e, s') \<Longrightarrow> P s'"
        by (rule andThen_preserves [where P = P and f = "update_rule impl mb rf"
              and g = "andThen (update_avg avgFn mb) (andThen (update_castBack r c params) update_synchronize)"])
           (blast intro: i4 s6)+
      have s4: "\<And>s e s'. P s \<Longrightarrow>
          andThen (update_clip clip grads) (andThen (update_rule impl mb rf) (andThen (update_avg avgFn mb)
            (andThen (update_castBack r c params) update_synchronize))) s = (e, s') \<Longrightarrow> P s'"
        by (rule andThen_preserves [where P = P and f = "update_clip clip grads"
              and g = "andThen (update_rule impl mb rf) (andThen (update_avg avgFn mb)
                (andThen (update_castBack r c params) update_synchronize))"])
           (blast intro: i3 s5)+
      have s3: "\<And>s e s'. P s \<Longrightarrow>
          andThen (update_unscale r) (andThen (update_clip clip grads) (andThen (update_rule impl mb rf)
            (andThen (update_avg avgFn mb) (andThen (update_castBack r c params) update_synchronize)))) s
            = (e, s') \<Longrightarrow> P s'"
        by (rule andThen_preserves [where P = P and f = "update_unscale r"
              and g = "andThen (update_clip clip grads) (andThen (update_rule impl mb rf)
                (andThen (update_avg avgFn mb) (andThen (update_castBack r c params) update_synchronize)))"])
           (blast intro: i2 s4)+
      show ?thesis
        by (rule andThen_preserves [where P = P, OF _ _ a0 run])
           (blast intro: i1 s3)+
    qed
  qed
qed

lemma arena_allocAvg':
  "arena_once s \<Longrightarrow> arena_once (update_allocAvg sizeOf c n s)"
  using arena_allocAvg by (cases s) blast

lemma arena_update:
  assumes k: "keeps_base impl" and a: "arena_once s"
    and u: "update r sizeOf clip avgFn impl params grads mbSize s = (e, s')"
  shows "arena_once s'"
  by (rule update_invariant [where P = arena_once, OF _ _ _ _ _ _ _ _ a u])
     (blast intro: arena_allocAvg' arena_cast arena_unscale arena_clip arena_rule [OF k]
        arena_avg arena_castBack arena_synchronize)+

lemma arena_updates:
  assumes k: "keeps_base impl" and a: "arena_once s"
    and u: "updates r sizeOf clip avgFn impl calls s = (e, s')"
  shows "arena_once s'"
  using a u
proof (induction calls arbitrary: s)
  case Nil
  then show ?case by simp
next
  case (Cons call calls)
  obtain params grads mbSize where call: "call = (params, grads, mbSize)" by (cases call)
  obtain e1 s1 where u1: "update r sizeOf clip avgFn impl params grads mbSize s = (e1, s1)"
    by (metis prod.exhaust)
  have a1: "arena_once s1" using arena_update [OF k Cons.prems(1) u1] .
  show ?case
  proof (cases e1)
    case None
    then show ?thesis using Cons.IH [OF a1] Cons.prems(2) u1 by (simp add: call)
  next
    case (Some x)
    then show ?thesis using a1 Cons.prems(2) u1 by (simp add: call)
  qed
qed

lemma keeps_base_Sgd: "keeps_base (Sgd_updateImpl r)"
  by (auto simp: keeps_base_def Sgd_updateImpl_def split: sum.splits)

lemma keeps_base_Adagrad: "keeps_base (Adagrad_updateImpl r sizeOf tmin)"
  unfolding keeps_base_def Adagrad_updateImpl_def
  by (auto simp: Let_def OptimizerBase.truncate_def split: sum.splits prod.splits if_splits)

lemma keeps_base_Adam: "keeps_base (Adam_updateImpl r sizeOf)"
  unfolding keeps_base_def using Adam_updateImpl_denoms by blast

lemma CopyCast_allocations:
  "CopyCast r out src w = (e, w') \<Longrightarrow> filter is_allocation (trace w') = filter is_allocation (trace w)"
  by (auto simp: CopyCast_def emit_def split: option.splits if_splits)

lemma quiet_allocAvg: "quiet al evs s \<Longrightarrow> quiet al evs (update_allocAvg sizeOf c n s)"
  by (cases s) (auto simp: quiet_def update_allocAvg_def)

lemma quiet_cast:
  assumes "quiet al evs s" and "update_cast r sizeOf c n params grads s = (e, s')"
  shows "quiet al evs s'"
proof -
  obtain opt w where s: "s = (opt, w)" by (cases s)
  obtain e5 w5 where c5: "CopyCast r (gd_m opt) (Some grads) w = (e5, w5)" by (metis prod.exhaust)
  have "s' = (if c then (opt\<lparr>optAlloc_m := Some al\<rparr>, w5) else (opt\<lparr>pm_m := Some params, gd_m := Some grads\<rparr>, w))"
    using assms c5 unfolding s by (auto simp: quiet_def update_cast_def Let_def)
  then show ?thesis using assms(1) CopyCast_allocations [OF c5] unfolding s
    by (auto simp: quiet_def)
qed

lemma quiet_unscale:
  assumes "quiet al evs s" and "update_unscale r s = (e, s')"
  shows "quiet al evs s'"
  using assms
  by (cases s) (auto simp: update_unscale_def quiet_def emit_def split: option.splits if_splits)

lemma quiet_clip:
  assumes "quiet al evs s" and "update_clip clip grads s = (e, s')"
  shows "quiet al evs s'"
  using assms
  by (cases s) (auto simp: update_clip_def quiet_def emit_def split: option.splits if_splits)

lemma quiet_rule:
  assumes "keeps_base impl" and "quiet al evs s" and "update_rule impl mb rf s = (e, s')"
  shows "quiet al evs s'"
proof -
  obtain opt w where s: "s = (opt, w)" by (cases s)
  have k: "\<And>p g opt' p'. impl opt p g mb rf = Inr (opt', p')
      \<Longrightarrow> optAlloc_m opt' = optAlloc_m opt \<and> pm_m opt' = pm_m opt"
    using assms(1) truncate_fields(8,10) unfolding keeps_base_def by blast
  show ?thesis
    using assms(2,3) unfolding s
    by (auto simp: update_rule_def quiet_def emit_def Let_def dest!: k split: option.splits sum.splits)
qed

lemma quiet_avg:
  assumes "quiet al evs s" and "update_avg avgFn mb s = (e, s')"
  shows "quiet al evs s'"
  using assms
  by (cases s) (auto simp: update_avg_def quiet_def emit_def split: option.splits if_splits)

lemma quiet_castBack:
  assumes "quiet al evs s" and "update_castBack r c params s = (e, s')"
  shows "quiet al evs s'"
proof -
  obtain opt w where s: "s = (opt, w)" by (cases s)
  obtain e1 w1 where c1: "CopyCast r (Some params) (pm_m opt) w = (e1, w1)" by (metis prod.exhaust)
  have "s' = (if c then (opt, w1) else (opt, w))"
    using assms(2) c1 by (auto simp: s update_castBack_def split: if_splits)
  then show ?thesis using assms(1) CopyCast_allocations [OF c1] by (auto simp: s quiet_def)
qed

lemma quiet_synchronize:
  assumes "quiet al evs s" and "update_synchronize s = (e, s')"
  shows "quiet al evs s'"
  using assms by (cases s) (auto simp: update_synchronize_def quiet_def emit_def)

lemma quiet_update:
  assumes k: "keeps_base impl" and a: "quiet al evs s"
    and u: "update r sizeOf clip avgFn impl params grads mbSize s = (e, s')"
  shows "quiet al evs s'"
  by (rule update_invariant [where P = "quiet al evs", OF _ _ _ _ _ _ _ _ a u])
     (blast intro: quiet_allocAvg quiet_cast quiet_unscale quiet_clip quiet_rule [OF k]
        quiet_avg quiet_castBack quiet_synchronize)+

lemma CopyCast_error: "CopyCast r out src w = (Some x, w') \<Longrightarrow> own_error x"
  by (auto simp: CopyCast_def own_error_def split: option.splits if_splits)

lemma cast_error:
  assumes a: "update_cast r sizeOf c n params grads s = (Some x, s')"
  shows "own_error x"
proof -
  obtain opt w where s: "s = (opt, w)" by (cases s)
  show ?thesis
  proof (cases c)
    case False
    with a show ?thesis by (simp add: s update_cast_def)
  next
    case True
    define al where "al = (case optAlloc_m opt of None \<Rightarrow> reserveExact (2 * n * sizeOf (optimizerType_m opt)) New_TensorAllocator | Some x \<Rightarrow> x)"
    define w1 where "w1 = (case optAlloc_m opt of None \<Rightarrow> emit (EvReserveExact (2 * n * sizeOf (optimizerType_m opt))) w | Some x \<Rightarrow> w)"
    show ?thesis
    proof (cases "pm_m opt")
      case None
      obtain pm al2 w2 where p: "allocate n (optimizerType_m opt) al w1 = (pm, al2, w2)" by (metis prod_cases3)
      obtain gd al3 w3 where g: "allocate n (optimizerType_m opt) al2 w2 = (gd, al3, w3)" by (metis prod_cases3)
      obtain e4 w4 where c4: "CopyCast r (Some pm) (Some params) w3 = (e4, w4)" by (metis prod.exhaust)
      obtain e5 w5 where c5: "CopyCast r (Some gd) (Some grads) w4 = (e5, w5)" by (metis prod.exhaust)
      have "e4 = Some x \<or> e5 = Some x"
        using a True None p g c4 c5 unfolding s
        by (cases "optAlloc_m opt"; cases e4)
           (auto simp: update_cast_def al_def w1_def Let_def)
      then show ?thesis using CopyCast_error c4 c5 by blast
    next
      case (Some pm)
      obtain e5 w5 where c5: "CopyCast r (gd_m opt) (Some grads) w1 = (e5, w5)" by (metis prod.exhaust)
      have "e5 = Some x"
        using a True Some c5 unfolding s
        by (cases "optAlloc_m opt") (auto simp: update_cast_def al_def w1_def Let_def)
      then show ?thesis using CopyCast_error c5 by blast
    qed
  qed
qed

lemma unscale_error: "update_unscale r s = (Some x, s') \<Longrightarrow> own_error x"
  by (cases s) (auto simp: update_unscale_def own_error_def split: option.splits if_splits)

lemma clip_error: "update_clip clip grads s = (Some x, s') \<Longrightarrow> own_error x"
  by (cases s) (auto simp: update_clip_def own_error_def split: option.splits if_splits)

lemma rule_error:
  "update_rule impl mb rf s = (Some x, s') \<Longrightarrow>
     own_error x \<or> (\<exists>opt p g. impl opt p g mb rf = Inl x)"
  by (cases s) (auto simp: update_rule_def own_error_def Let_def split: option.splits sum.splits)

lemma avg_error: "update_avg avgFn mb s = (Some x, s') \<Longrightarrow> own_error x"
  by (cases s) (auto simp: update_avg_def own_error_def split: option.splits if_splits)

lemma castBack_error:
  assumes a: "update_castBack r c params s = (Some x, s')"
  shows "own_error x"
proof -
  obtain opt w where s: "s = (opt, w)" by (cases s)
  obtain e1 w1 where c1: "CopyCast r (Some params) (pm_m opt) w = (e1, w1)" by (metis prod.exhaust)
  have "c \<and> e1 = Some x" using a c1 by (auto simp: s update_castBack_def split: if_splits)
  then show ?thesis using CopyCast_error c1 by blast
qed

lemma synchronize_error: "update_synchronize s = (Some x, s') \<Longrightarrow> False"
  by (cases s) (simp add: update_synchronize_def)

lemma andThen_error:
  assumes "andThen f g s = (Some x, s'')"
  shows "(\<exists>s'. f s = (Some x, s')) \<or> (\<exists>s'. g s' = (Some x, s''))"
  using assms by (auto simp: andThen_def split: prod.splits option.splits)

lemma update_errors:
  assumes u: "update r sizeOf clip avgFn impl params grads mbSize s = (Some x, s')"
  shows "x = Abort ''Using rational optimizer auto-adjustment with trainer that does not provide MB size''
       \<or> x = NullPointer \<or> x = ShapeMismatch
       \<or> (\<exists>opt p g actualMBSize refMBWords. impl opt p g actualMBSize refMBWords = Inl x)"
proof -
  obtain opt w where s: "s = (opt, w)" by (cases s)
  show ?thesis
  proof (cases "refMBWordsParam_m opt \<noteq> 0 \<and> mbSize = mbSizeNotProvided")
    case True
    then show ?thesis using u by (simp add: s update_def)
  next
    case False
    show ?thesis
    proof (cases "heap w params")
      case None
      then show ?thesis using u False by (auto simp: s update_def Let_def split: if_splits)
    next
      case (Some p)
      define mb where "mb = (if refMBWordsParam_m opt = 0 then 1 else mbSize)"
      define rf where "rf = (if refMBWordsParam_m opt = 0 then 1 else refMBWordsParam_m opt)"
      define c where "c = (type_m p \<noteq> optimizerType_m opt)"
      have run: "andThen (update_cast r sizeOf c (tensor_size p) params grads)
                   (andThen (update_unscale r)
                   (andThen (update_clip clip grads)
                   (andThen (update_rule impl mb rf)
                   (andThen (update_avg avgFn mb)
                   (andThen (update_castBack r c params)
                    update_synchronize)))))
                   (update_allocAvg sizeOf c (tensor_size p) (opt, w)) = (Some x, s')"
        using u False Some by (auto simp: s update_def Let_def mb_def rf_def c_def split: if_splits)
      have "own_error x \<or> (\<exists>opt p g. impl opt p g mb rf = Inl x)"
        using run
        by (auto dest!: andThen_error dest: cast_error unscale_error clip_error rule_error avg_error
              castBack_error synchronize_error)
      then show ?thesis unfolding own_error_def by blast
    qed
  qed
qed

text \<open>
  C2 (as amended). With an update rule that leaves the members of the base class alone:
  over any sequence of \<^verbatim>\<open>update\<close> calls on an optimizer whose arena does not exist
  yet, the arena is reserved at most once, and exactly once when it exists at the end.
  A call made when the arena and the master copy exist reserves and allocates nothing
  and leaves the allocator as it is, whatever regime the tensors of the call ask for. The
  only failures of a call are the abort for the missing minibatch size, a null pointer, a
  shape mismatch, and the failures of the update rule: there is no check of the regime.
\<close>

theorem arena_reserved_once:
  "keeps_base impl \<longrightarrow>
     (optAlloc_m opt = None \<and> reservations w = 0
        \<and> updates r sizeOf clip avgFn impl calls (opt, w) = (e, (opt', w')) \<longrightarrow>
        reservations w' \<le> 1
        \<and> (case optAlloc_m opt' of
             None \<Rightarrow> reservations w' = 0
           | Some al \<Rightarrow> reservations w' = 1 \<and> length (reserved al) = 1))
   \<and> (optAlloc_m opt = Some al \<and> pm_m opt \<noteq> None
        \<and> update r sizeOf clip avgFn impl params grads mbSize (opt, w) = (e, (opt', w')) \<longrightarrow>
        optAlloc_m opt' = Some al
        \<and> filter is_allocation (trace w') = filter is_allocation (trace w))
   \<and> (update r sizeOf clip avgFn impl params grads mbSize (opt, w) = (Some x, (opt', w')) \<longrightarrow>
        x = Abort ''Using rational optimizer auto-adjustment with trainer that does not provide MB size''
        \<or> x = NullPointer \<or> x = ShapeMismatch
        \<or> (\<exists>opt p g actualMBSize refMBWords. impl opt p g actualMBSize refMBWords = Inl x))"
proof (intro impI conjI)
  assume k: "keeps_base impl"
    and h: "optAlloc_m opt = None \<and> reservations w = 0
        \<and> updates r sizeOf clip avgFn impl calls (opt, w) = (e, (opt', w'))"
  then have "arena_once (opt, w)" by (simp add: arena_once_def)
  with k h have a: "arena_once (opt', w')" using arena_updates by blast
  then show "reservations w' \<le> 1"
    by (auto simp: arena_once_def split: option.splits)
  from a show "case optAlloc_m opt' of
             None \<Rightarrow> reservations w' = 0
           | Some al \<Rightarrow> reservations w' = 1 \<and> length (reserved al) = 1"
    by (simp add: arena_once_def)
next
  assume k: "keeps_base impl"
    and h: "optAlloc_m opt = Some al \<and> pm_m opt \<noteq> None
        \<and> update r sizeOf clip avgFn impl params grads mbSize (opt, w) = (e, (opt', w'))"
  then have "quiet al (filter is_allocation (trace w)) (opt, w)" by (simp add: quiet_def)
  with k h have "quiet al (filter is_allocation (trace w)) (opt', w')" using quiet_update by blast
  then show "optAlloc_m opt' = Some al"
    and "filter is_allocation (trace w') = filter is_allocation (trace w)"
    by (simp_all add: quiet_def)
next
  assume "update r sizeOf clip avgFn impl params grads mbSize (opt, w) = (Some x, (opt', w'))"
  then show "x = Abort ''Using rational optimizer auto-adjustment with trainer that does not provide MB size''
        \<or> x = NullPointer \<or> x = ShapeMismatch
        \<or> (\<exists>opt p g actualMBSize refMBWords. impl opt p g actualMBSize refMBWords = Inl x)"
    using update_errors by blast
qed


lemmas ex_update_defs = update_def New_OptimizerBase_def ex_world_def ex_sizeOf_def ex_clip_def ex_avgFn_def
      tensor_size_def andThen_def update_allocAvg_def update_cast_def update_unscale_def update_clip_def
      update_rule_def update_avg_def update_castBack_def update_synchronize_def allocate_def emit_def
      reserveExact_def New_TensorAllocator_def Sgd_updateImpl_def Element2_def exact_def CopyCast_def Let_def
      ex_opt_avg_def

theorem arena_reserved_once_witness:
  "keeps_base (Sgd_updateImpl exact)
   \<and> optAlloc_m ex_opt_avg = None \<and> reservations ex_world = 0
   \<and> reservations (snd (snd (updates exact ex_sizeOf ex_clip ex_avgFn (Sgd_updateImpl exact)
        [(0, 1, 1), (2, 3, 1)] (ex_opt_avg, ex_world)))) \<le> 1
   \<and> optAlloc_m (fst ex_state1) = Some \<lparr>reserved = [4], allocated = 1\<rparr>
   \<and> pm_m (fst ex_state1) = Some 0
   \<and> optAlloc_m (fst (snd (update exact ex_sizeOf ex_clip ex_avgFn (Sgd_updateImpl exact) 2 3 1 ex_state1)))
       = Some \<lparr>reserved = [4], allocated = 1\<rparr>
   \<and> filter is_allocation (trace (snd (snd (update exact ex_sizeOf ex_clip ex_avgFn
         (Sgd_updateImpl exact) 2 3 1 ex_state1))))
       = [EvReserveExact 4, EvAllocate 4]
   \<and> update exact ex_sizeOf ex_clip ex_avgFn (Sgd_updateImpl exact) 9 1 1 (ex_opt_avg, ex_world)
       = (Some NullPointer, (ex_opt_avg, ex_world))"
proof -
  have k: "keeps_base (Sgd_updateImpl exact)" by (rule keeps_base_Sgd)
  have h1: "optAlloc_m ex_opt_avg = None \<and> reservations ex_world = 0"
    by (simp add: ex_opt_avg_def New_OptimizerBase_def ex_world_def reservations_def)
  have h2: "optAlloc_m (fst ex_state1) = Some \<lparr>reserved = [4], allocated = 1\<rparr>
      \<and> pm_m (fst ex_state1) \<noteq> None \<and> pm_m (fst ex_state1) = Some 0
      \<and> filter is_allocation (trace (snd ex_state1)) = [EvReserveExact 4, EvAllocate 4]"
    by (simp add: ex_state1_def)
  have h3: "update exact ex_sizeOf ex_clip ex_avgFn (Sgd_updateImpl exact) 9 1 1 (ex_opt_avg, ex_world)
       = (Some NullPointer, (ex_opt_avg, ex_world))"
    by (simp add: update_def ex_opt_avg_def New_OptimizerBase_def ex_world_def)
  note t1 = arena_reserved_once [where impl = "Sgd_updateImpl exact" and opt = ex_opt_avg and w = ex_world
      and r = exact and sizeOf = ex_sizeOf and clip = ex_clip and avgFn = ex_avgFn
      and calls = "[(0, 1, 1), (2, 3, 1)]"
      and e = "fst (updates exact ex_sizeOf ex_clip ex_avgFn (Sgd_updateImpl exact)
                 [(0, 1, 1), (2, 3, 1)] (ex_opt_avg, ex_world))"
      and opt' = "fst (snd (updates exact ex_sizeOf ex_clip ex_avgFn (Sgd_updateImpl exact)
                 [(0, 1, 1), (2, 3, 1)] (ex_opt_avg, ex_world)))"
      and w' = "snd (snd (updates exact ex_sizeOf ex_clip ex_avgFn (Sgd_updateImpl exact)
                 [(0, 1, 1), (2, 3, 1)] (ex_opt_avg, ex_world)))"]
  note t2 = arena_reserved_once [where impl = "Sgd_updateImpl exact"
      and opt = "fst ex_state1" and w = "snd ex_state1"
      and al = "\<lparr>reserved = [4], allocated = 1\<rparr>"
      and r = exact and sizeOf = ex_sizeOf and clip = ex_clip and avgFn = ex_avgFn
      and params = 2 and grads = 3 and mbSize = 1
      and e = "fst (update exact ex_sizeOf ex_clip ex_avgFn (Sgd_updateImpl exact) 2 3 1 ex_state1)"
      and opt' = "fst (snd (update exact ex_sizeOf ex_clip ex_avgFn (Sgd_updateImpl exact) 2 3 1 ex_state1))"
      and w' = "snd (snd (update exact ex_sizeOf ex_clip ex_avgFn (Sgd_updateImpl exact) 2 3 1 ex_state1))"]
  note t3 = arena_reserved_once [where impl = "Sgd_updateImpl exact" and opt = ex_opt_avg and w = ex_world
      and r = exact and sizeOf = ex_sizeOf and clip = ex_clip and avgFn = ex_avgFn
      and params = 9 and grads = 1 and mbSize = 1 and x = NullPointer
      and opt' = ex_opt_avg and w' = ex_world]
  show ?thesis
    using k h1 h2 h3 t1 t2 t3 by simp
qed


text \<open>
  C2 as it is written fails: an optimizer with smoothing is first called on \<^verbatim>\<open>float32\<close>
  parameters, which need no cast, so the arena is reserved for one shard (4 bytes); the
  second call is on \<^verbatim>\<open>float64\<close> parameters, which need the cast and so three shards.
  The second call returns without an error, with the arena as it was, and works on the
  tensors 0 and 1 of the first call as master copy and gradient shard.
\<close>

theorem arena_regime_change_counterexample:
  "fst (updates exact ex_sizeOf ex_clip ex_avgFn (Sgd_updateImpl exact) [(0, 1, 1), (2, 3, 1)]
          (ex_opt_avg, ex_world)) = None
   \<and> type_m (the (heap ex_world 0)) = optimizerType_m ex_opt_avg
   \<and> type_m (the (heap ex_world 2)) \<noteq> optimizerType_m ex_opt_avg
   \<and> optAlloc_m (fst (snd (updates exact ex_sizeOf ex_clip ex_avgFn (Sgd_updateImpl exact)
          [(0, 1, 1), (2, 3, 1)] (ex_opt_avg, ex_world))))
       = Some \<lparr>reserved = [4], allocated = 1\<rparr>
   \<and> trace (snd (snd (updates exact ex_sizeOf ex_clip ex_avgFn (Sgd_updateImpl exact)
          [(0, 1, 1), (2, 3, 1)] (ex_opt_avg, ex_world))))
       = [EvReserveExact 4, EvAllocate 4, EvUpdateImpl 0 1 1 1, EvUpdateAvgParams 4 0 0 1, EvSynchronize,
          EvCopyCast 1 3, EvUpdateImpl 0 1 1 1, EvUpdateAvgParams 4 0 0 1, EvCopyCast 2 0, EvSynchronize]"
  by (simp add: ex_update_defs)


subsection \<open>The order of the update call\<close>
































end
